theory Spec2Isabelle
  imports Main
begin

section \<open>The browser captcha service of flow2api\<close>

text \<open>
  A shallow embedding of \<^verbatim>\<open>src/services/browser_captcha_personal.py\<close>, class
  \<^verbatim>\<open>BrowserCaptchaService\<close>. The service drives a browser through the nodriver
  library. The browser, its tabs, the file system and the clock are outside the program:
  they are an environment that answers each call, and every call the service makes is
  written to a trace. Each coroutine of the class becomes a function from the state
  (the object's attributes and the trace) to an outcome (an exception or a value) and the
  new state.
\<close>

subsection \<open>Values and exceptions\<close>

text \<open>
  Only subclasses of Python's \<^verbatim>\<open>Exception\<close> are modelled (they are what
  \<^verbatim>\<open>except Exception\<close> catches). Task cancellation and interrupts are not.
\<close>

datatype exn = ConnectionRefusedError | AttributeError | OtherException string

text \<open>
  What \<^verbatim>\<open>tab.evaluate\<close> hands back from the page: a JSON value as Python sees it
  (\<^verbatim>\<open>null\<close> and \<^verbatim>\<open>undefined\<close> are \<^verbatim>\<open>None\<close>; numbers that are not
  integers are left out).
\<close>

datatype pyval =
    PNone
  | PBool bool
  | PInt int
  | PStr string
  | PList "pyval list"
  | PDict "(string \<times> pyval) list"

text \<open>Python's truth test, as used by \<^verbatim>\<open>if token:\<close> and \<^verbatim>\<open>if is_enterprise:\<close>.\<close>

fun truthy :: "pyval \<Rightarrow> bool" where
  "truthy PNone = False"
| "truthy (PBool b) = b"
| "truthy (PInt i) = (i \<noteq> 0)"
| "truthy (PStr s) = (s \<noteq> [])"
| "truthy (PList xs) = (xs \<noteq> [])"
| "truthy (PDict kvs) = (kvs \<noteq> [])"

type_synonym tab = nat
type_synonym browser = nat

text \<open>
  The JavaScript texts handed to \<^verbatim>\<open>tab.evaluate\<close>, one constructor per text of
  the source; the arguments are what the source interpolates (the site key, the timestamp
  \<^verbatim>\<open>ts\<close> of the variable names).
\<close>

datatype script =
    Ready_state
  | Enterprise_check
  | Inject_script string
  | Execute_script string int
  | Read_token int
  | Read_error int
  | Delete_vars int

datatype level = INFO | WARNING | ERROR

text \<open>
  The trace. A log call is recorded with its level and the source line of the call (the
  messages are not ASCII). Sleeps are in milliseconds. \<open>Browser_get\<close> also records
  what the call answered, since the calls that follow go to the tab it returned.
  \<open>Call_get_token_legacy\<close> marks an entry into \<^verbatim>\<open>_get_token_legacy\<close>, as
  a spy on the method would, so that its calls can be counted.
\<close>

datatype event =
    Log level nat
  | Os_makedirs string
  | Uc_start bool string
  | Browser_stopped browser
  | Browser_get browser string bool "exn + tab"
  | Browser_stop browser
  | Tab_evaluate tab script
  | Tab_sleep tab nat
  | Tab_close tab
  | Asyncio_sleep nat
  | Time_time
  | Call_get_token_legacy string

subsection \<open>The object and the environment\<close>

record service =
  headless :: bool
  browser :: "browser option"
  initialized :: bool
  website_key :: string
  db :: pyval
  user_data_dir :: string
  resident_project_id :: "string option"
  resident_tab :: "tab option"
  running :: bool
  recaptcha_ready :: bool

record state =
  self :: service
  trace :: "event list"

text \<open>
  The environment answers a call from the number of events before it and the call's
  arguments: \<open>None\<close> or \<open>Inr\<close> when the call returns, \<open>Some e\<close> or \<open>Inl e\<close> when
  it raises \<open>e\<close>. Since a run is deterministic, every behaviour of a real browser along
  one run is such a function.
\<close>

record env =
  on_makedirs :: "nat \<Rightarrow> string \<Rightarrow> exn option"
  on_start :: "nat \<Rightarrow> bool \<Rightarrow> string \<Rightarrow> exn + browser"
  on_stopped :: "nat \<Rightarrow> browser \<Rightarrow> exn + bool"
  on_get :: "nat \<Rightarrow> browser \<Rightarrow> string \<Rightarrow> bool \<Rightarrow> exn + tab"
  on_stop :: "nat \<Rightarrow> browser \<Rightarrow> exn option"
  on_evaluate :: "nat \<Rightarrow> tab \<Rightarrow> script \<Rightarrow> exn + pyval"
  on_sleep :: "nat \<Rightarrow> tab \<Rightarrow> nat \<Rightarrow> exn option"
  on_close :: "nat \<Rightarrow> tab \<Rightarrow> exn option"
  on_time :: "nat \<Rightarrow> int"

subsection \<open>Control: sequencing, exceptions, cleanup\<close>

type_synonym 'a prog = "state \<Rightarrow> (exn + 'a) \<times> state"

definition ret :: "'a \<Rightarrow> 'a prog" where
  "ret x st = (Inr x, st)"

definition raise :: "exn \<Rightarrow> 'a prog" where
  "raise e st = (Inl e, st)"

definition andthen :: "'a prog \<Rightarrow> ('a \<Rightarrow> 'b prog) \<Rightarrow> 'b prog" where
  "andthen m k st = (case m st of
      (Inl e, st') \<Rightarrow> (Inl e, st')
    | (Inr x, st') \<Rightarrow> k x st')"

text \<open>\<^verbatim>\<open>try: m  except Exception as e: h(e)\<close>\<close>

definition try_except :: "'a prog \<Rightarrow> (exn \<Rightarrow> 'a prog) \<Rightarrow> 'a prog" where
  "try_except m h st = (case m st of
      (Inl e, st') \<Rightarrow> h e st'
    | (Inr x, st') \<Rightarrow> (Inr x, st'))"

text \<open>
  \<^verbatim>\<open>try: m  finally: f\<close>: \<open>f\<close> runs on every exit of \<open>m\<close>; an exception of
  \<open>f\<close> replaces the outcome of \<open>m\<close>.
\<close>

definition try_finally :: "'a prog \<Rightarrow> unit prog \<Rightarrow> 'a prog" where
  "try_finally m f st = (case m st of
      (r, st') \<Rightarrow> (case f st' of
          (Inl e, st'') \<Rightarrow> (Inl e, st'')
        | (Inr u, st'') \<Rightarrow> (r, st'')))"

definition emit :: "event \<Rightarrow> unit prog" where
  "emit ev st = (Inr (), st\<lparr>trace := trace st @ [ev]\<rparr>)"

definition log :: "level \<Rightarrow> nat \<Rightarrow> unit prog" where
  "log lv line = emit (Log lv line)"

definition get_self :: "service prog" where
  "get_self st = (Inr (self st), st)"

definition set_self :: "(service \<Rightarrow> service) \<Rightarrow> unit prog" where
  "set_self f st = (Inr (), st\<lparr>self := f (self st)\<rparr>)"

text \<open>A call that returns nothing, and a call that returns a value.\<close>

definition call_unit :: "event \<Rightarrow> (nat \<Rightarrow> exn option) \<Rightarrow> unit prog" where
  "call_unit ev answer st =
     (case answer (length (trace st)) of None \<Rightarrow> Inr () | Some e \<Rightarrow> Inl e,
      st\<lparr>trace := trace st @ [ev]\<rparr>)"

definition call_val :: "event \<Rightarrow> (nat \<Rightarrow> exn + 'a) \<Rightarrow> 'a prog" where
  "call_val ev answer st =
     (answer (length (trace st)), st\<lparr>trace := trace st @ [ev]\<rparr>)"

definition os_makedirs :: "env \<Rightarrow> string \<Rightarrow> unit prog" where
  "os_makedirs E dir = call_unit (Os_makedirs dir) (\<lambda>n. on_makedirs E n dir)"

definition uc_start :: "env \<Rightarrow> bool \<Rightarrow> string \<Rightarrow> browser prog" where
  "uc_start E hl dir = call_val (Uc_start hl dir) (\<lambda>n. on_start E n hl dir)"

definition asyncio_sleep :: "nat \<Rightarrow> unit prog" where
  "asyncio_sleep ms = emit (Asyncio_sleep ms)"

definition time_time :: "env \<Rightarrow> int prog" where
  "time_time E = call_val Time_time (\<lambda>n. Inr (on_time E n))"

text \<open>
  Methods of the browser and of a tab. The receiver is an attribute that may hold
  \<^verbatim>\<open>None\<close>; a method call on \<^verbatim>\<open>None\<close> raises \<^verbatim>\<open>AttributeError\<close>.
\<close>

definition browser_stopped :: "env \<Rightarrow> browser option \<Rightarrow> bool prog" where
  "browser_stopped E bo = (case bo of
      None \<Rightarrow> raise AttributeError
    | Some b \<Rightarrow> call_val (Browser_stopped b) (\<lambda>n. on_stopped E n b))"

definition browser_get :: "env \<Rightarrow> browser option \<Rightarrow> string \<Rightarrow> bool \<Rightarrow> tab prog" where
  "browser_get E bo url new_tab st = (case bo of
      None \<Rightarrow> raise AttributeError st
    | Some b \<Rightarrow>
        call_val (Browser_get b url new_tab (on_get E (length (trace st)) b url new_tab))
          (\<lambda>n. on_get E n b url new_tab) st)"

definition browser_stop :: "env \<Rightarrow> browser option \<Rightarrow> unit prog" where
  "browser_stop E bo = (case bo of
      None \<Rightarrow> raise AttributeError
    | Some b \<Rightarrow> call_unit (Browser_stop b) (\<lambda>n. on_stop E n b))"

definition tab_evaluate :: "env \<Rightarrow> tab option \<Rightarrow> script \<Rightarrow> pyval prog" where
  "tab_evaluate E topt scr = (case topt of
      None \<Rightarrow> raise AttributeError
    | Some t \<Rightarrow> call_val (Tab_evaluate t scr) (\<lambda>n. on_evaluate E n t scr))"

definition tab_sleep :: "env \<Rightarrow> tab option \<Rightarrow> nat \<Rightarrow> unit prog" where
  "tab_sleep E topt ms = (case topt of
      None \<Rightarrow> raise AttributeError
    | Some t \<Rightarrow> call_unit (Tab_sleep t ms) (\<lambda>n. on_sleep E n t ms))"

definition tab_close :: "env \<Rightarrow> tab option \<Rightarrow> unit prog" where
  "tab_close E topt = (case topt of
      None \<Rightarrow> raise AttributeError
    | Some t \<Rightarrow> call_unit (Tab_close t) (\<lambda>n. on_close E n t))"

subsection \<open>The constructor and the browser controller\<close>

text \<open>\<^verbatim>\<open>os.path.join(os.getcwd(), "browser_data")\<close> on a POSIX system.\<close>

definition path_join :: "string \<Rightarrow> string \<Rightarrow> string" where
  "path_join a b = (if a = [] \<or> last a = CHR ''/'' then a @ b else a @ ''/'' @ b)"

text \<open>\<^verbatim>\<open>__init__(self, db=None)\<close>; \<open>cwd\<close> is what \<^verbatim>\<open>os.getcwd()\<close> returns.\<close>

definition init :: "string \<Rightarrow> pyval \<Rightarrow> service" where
  "init cwd d = \<lparr>
     headless = False,
     browser = None,
     initialized = False,
     website_key = ''6LdsFiUsAAAAAIjVDZcuLhaHiDn5nnHVXVRQGeMV'',
     db = d,
     user_data_dir = path_join cwd ''browser_data'',
     resident_project_id = None,
     resident_tab = None,
     running = False,
     recaptcha_ready = False \<rparr>"

text \<open>
  \<^verbatim>\<open>initialize\<close>, lines 52 to 93. The first block returns \<open>True\<close> when the method
  returns from inside it (the browser is alive), \<open>False\<close> when control goes on to the
  launch.
\<close>

definition initialize :: "env \<Rightarrow> unit prog" where
  "initialize E =
     andthen get_self (\<lambda>s.
     andthen
       (if initialized s \<and> browser s \<noteq> None then
          try_except
            (andthen (browser_stopped E (browser s)) (\<lambda>stopped.
               if stopped then
                 andthen (log WARNING 59) (\<lambda>_.
                 andthen (set_self (\<lambda>s. s\<lparr>initialized := False\<rparr>)) (\<lambda>_.
                 ret False))
               else ret True))
            (\<lambda>e.
               andthen (log WARNING 64) (\<lambda>_.
               andthen (set_self (\<lambda>s. s\<lparr>initialized := False\<rparr>)) (\<lambda>_.
               ret False)))
        else ret False)
       (\<lambda>returned.
          if returned then ret ()
          else
            try_except
              (andthen (log INFO 68) (\<lambda>_.
               andthen (os_makedirs E (user_data_dir s)) (\<lambda>_.
               andthen (uc_start E (headless s) (user_data_dir s)) (\<lambda>b.
               andthen (set_self (\<lambda>s. s\<lparr>browser := Some b\<rparr>)) (\<lambda>_.
               andthen (set_self (\<lambda>s. s\<lparr>initialized := True\<rparr>)) (\<lambda>_.
               log INFO 89))))))
              (\<lambda>e.
                 andthen (log ERROR 92) (\<lambda>_.
                 raise e))))"

subsection \<open>The readiness probe\<close>

text \<open>
  The loop \<^verbatim>\<open>for i in range(20)\<close> of \<^verbatim>\<open>_wait_for_recaptcha\<close>, lines 210 to
  221, with the two statements after it; the argument counts the iterations left.
\<close>

fun wait_poll :: "env \<Rightarrow> tab option \<Rightarrow> nat \<Rightarrow> bool prog" where
  "wait_poll E t 0 =
     andthen (log WARNING 220) (\<lambda>_.
     ret False)"
| "wait_poll E t (Suc n) =
     andthen (tab_evaluate E t Enterprise_check) (\<lambda>is_enterprise.
       if truthy is_enterprise then
         andthen (log INFO 216) (\<lambda>_.
         ret True)
       else
         andthen (tab_sleep E t 500) (\<lambda>_.
         wait_poll E t n))"

text \<open>\<^verbatim>\<open>_wait_for_recaptcha(self, tab)\<close>, lines 176 to 221.\<close>

definition wait_for_recaptcha :: "env \<Rightarrow> tab option \<Rightarrow> bool prog" where
  "wait_for_recaptcha E t =
     andthen (log INFO 182) (\<lambda>_.
     andthen (tab_evaluate E t Enterprise_check) (\<lambda>is_enterprise.
       if truthy is_enterprise then
         andthen (log INFO 190) (\<lambda>_.
         ret True)
       else
         andthen (log INFO 194) (\<lambda>_.
         andthen get_self (\<lambda>s.
         andthen (tab_evaluate E t (Inject_script (website_key s))) (\<lambda>_.
         andthen (tab_sleep E t 3000) (\<lambda>_.
         wait_poll E t 20))))))"

subsection \<open>The executor\<close>

text \<open>
  The loop \<^verbatim>\<open>for i in range(30)\<close> of \<^verbatim>\<open>_execute_recaptcha_on_tab\<close>, lines 263
  to 271. It returns the variable \<^verbatim>\<open>token\<close>: the last value read, or the value
  before the loop when there is no iteration.
\<close>

fun execute_poll :: "env \<Rightarrow> tab option \<Rightarrow> int \<Rightarrow> nat \<Rightarrow> pyval \<Rightarrow> pyval prog" where
  "execute_poll E t ts 0 token = ret token"
| "execute_poll E t ts (Suc n) token =
     andthen (tab_sleep E t 500) (\<lambda>_.
     andthen (tab_evaluate E t (Read_token ts)) (\<lambda>token.
       if truthy token then ret token
       else
         andthen (tab_evaluate E t (Read_error ts)) (\<lambda>error.
           if truthy error then
             andthen (log ERROR 270) (\<lambda>_.
             ret token)
           else execute_poll E t ts n token)))"

text \<open>
  \<^verbatim>\<open>_execute_recaptcha_on_tab(self, tab)\<close>, lines 223 to 279. The clock is read in
  milliseconds. The bare \<^verbatim>\<open>except\<close> of the cleanup swallows every exception.
\<close>

definition execute_recaptcha_on_tab :: "env \<Rightarrow> tab option \<Rightarrow> pyval prog" where
  "execute_recaptcha_on_tab E t =
     andthen (time_time E) (\<lambda>ts.
     andthen get_self (\<lambda>s.
     andthen (tab_evaluate E t (Execute_script (website_key s) ts)) (\<lambda>_.
     andthen (execute_poll E t ts 30 PNone) (\<lambda>token.
     andthen (try_except (andthen (tab_evaluate E t (Delete_vars ts)) (\<lambda>_. ret ()))
                (\<lambda>e. ret ())) (\<lambda>_.
     ret token)))))"

subsection \<open>The resident channel\<close>

definition website_url :: "string \<Rightarrow> string" where
  "website_url project_id = ''https://labs.google/fx/tools/flow/project/'' @ project_id"

text \<open>
  One round of the loop \<^verbatim>\<open>for retry in range(15)\<close> of
  \<^verbatim>\<open>start_resident_mode\<close>, lines 122 to 140. It returns whether the page is
  complete, that is whether the loop is left with \<^verbatim>\<open>page_loaded = True\<close>. The tab is
  read from the attribute on each round, since the handler of
  \<^verbatim>\<open>ConnectionRefusedError\<close> may replace it.
\<close>

definition page_load_round :: "env \<Rightarrow> string \<Rightarrow> bool prog" where
  "page_load_round E url =
     try_except
       (andthen (asyncio_sleep 1000) (\<lambda>_.
        andthen get_self (\<lambda>s.
        andthen (tab_evaluate E (resident_tab s) Ready_state) (\<lambda>ready_state.
        andthen (log INFO 125) (\<lambda>_.
        ret (ready_state = PStr ''complete''))))))
       (\<lambda>e. case e of
          ConnectionRefusedError \<Rightarrow>
            andthen (log WARNING 130) (\<lambda>_.
            andthen
              (try_except
                 (andthen get_self (\<lambda>s.
                  andthen (browser_get E (browser s) url True) (\<lambda>t.
                  andthen (set_self (\<lambda>s. s\<lparr>resident_tab := Some t\<rparr>)) (\<lambda>_.
                  log INFO 134))))
                 (\<lambda>e2. log ERROR 136)) (\<lambda>_.
            andthen (asyncio_sleep 2000) (\<lambda>_.
            ret False)))
        | _ \<Rightarrow>
            andthen (log WARNING 139) (\<lambda>_.
            andthen (asyncio_sleep 2000) (\<lambda>_.
            ret False)))"

text \<open>
  The loop, lines 120 to 140; the argument counts the rounds left, the result is
  \<^verbatim>\<open>page_loaded\<close>.
\<close>

fun page_load_loop :: "env \<Rightarrow> string \<Rightarrow> nat \<Rightarrow> bool prog" where
  "page_load_loop E url 0 = ret False"
| "page_load_loop E url (Suc n) =
     andthen (page_load_round E url) (\<lambda>page_loaded.
       if page_loaded then ret True else page_load_loop E url n)"

text \<open>
  \<^verbatim>\<open>start_resident_mode(self, project_id)\<close>, lines 97 to 154, in two parts: lines
  107 to 117 (the browser is started, the target stored, the tab opened), then the method
  with the page-load wait and the readiness probe.
\<close>

definition resident_open :: "env \<Rightarrow> string \<Rightarrow> unit prog" where
  "resident_open E project_id =
     andthen (initialize E) (\<lambda>_.
     andthen (set_self (\<lambda>s. s\<lparr>resident_project_id := Some project_id\<rparr>)) (\<lambda>_.
     andthen (log INFO 112) (\<lambda>_.
     andthen get_self (\<lambda>s.
     andthen (browser_get E (browser s) (website_url project_id) True) (\<lambda>t.
     andthen (set_self (\<lambda>s. s\<lparr>resident_tab := Some t\<rparr>)) (\<lambda>_.
     log INFO 117))))))"

definition start_resident_mode :: "env \<Rightarrow> string \<Rightarrow> unit prog" where
  "start_resident_mode E project_id =
     andthen get_self (\<lambda>s.
       if running s then
         log WARNING 104
       else
         andthen (resident_open E project_id) (\<lambda>_.
         andthen (page_load_loop E (website_url project_id) 15) (\<lambda>page_loaded.
           if \<not> page_loaded then
             log ERROR 143
           else
             andthen get_self (\<lambda>s.
             andthen (wait_for_recaptcha E (resident_tab s)) (\<lambda>ready.
             andthen (set_self (\<lambda>s. s\<lparr>recaptcha_ready := ready\<rparr>)) (\<lambda>_.
               if \<not> ready then
                 log ERROR 150
               else
                 andthen (set_self (\<lambda>s. s\<lparr>running := True\<rparr>)) (\<lambda>_.
                 log INFO 154)))))))"

text \<open>\<^verbatim>\<open>stop_resident_mode(self)\<close>, lines 156 to 174.\<close>

definition stop_resident_mode :: "env \<Rightarrow> unit prog" where
  "stop_resident_mode E =
     andthen get_self (\<lambda>s.
       if \<not> running s then ret ()
       else
         andthen (set_self (\<lambda>s. s\<lparr>running := False\<rparr>)) (\<lambda>_.
         andthen
           (if resident_tab s \<noteq> None then
              andthen (try_except (tab_close E (resident_tab s)) (\<lambda>e. ret ())) (\<lambda>_.
              set_self (\<lambda>s. s\<lparr>resident_tab := None\<rparr>))
            else ret ()) (\<lambda>_.
         andthen (set_self (\<lambda>s. s\<lparr>resident_project_id := None\<rparr>)) (\<lambda>_.
         andthen (set_self (\<lambda>s. s\<lparr>recaptcha_ready := False\<rparr>)) (\<lambda>_.
         log INFO 174)))))"

subsection \<open>The legacy acquirer\<close>

text \<open>
  The loop \<^verbatim>\<open>for _ in range(10)\<close> of \<^verbatim>\<open>_get_token_legacy\<close>, lines 341 to 345.
  It has no result: the code goes on whether or not the page became complete.
\<close>

fun legacy_load_poll :: "env \<Rightarrow> tab option \<Rightarrow> nat \<Rightarrow> unit prog" where
  "legacy_load_poll E t 0 = ret ()"
| "legacy_load_poll E t (Suc n) =
     andthen (tab_evaluate E t Ready_state) (\<lambda>ready_state.
       if ready_state = PStr ''complete'' then ret ()
       else
         andthen (tab_sleep E t 500) (\<lambda>_.
         legacy_load_poll E t n))"

text \<open>
  The body of the \<^verbatim>\<open>try\<close> of \<^verbatim>\<open>_get_token_legacy\<close> in two parts, cut at the
  assignment of the local variable \<^verbatim>\<open>tab\<close>: lines 330 to 334 return what is
  assigned to it, lines 337 to 365 run with it.
\<close>

definition legacy_open :: "env \<Rightarrow> string \<Rightarrow> tab prog" where
  "legacy_open E project_id =
     andthen (log INFO 331) (\<lambda>_.
     andthen get_self (\<lambda>s.
     browser_get E (browser s) (website_url project_id) False))"

definition legacy_rest :: "env \<Rightarrow> tab option \<Rightarrow> pyval prog" where
  "legacy_rest E t =
     andthen (log INFO 337) (\<lambda>_.
     andthen (tab_sleep E t 3000) (\<lambda>_.
     andthen (legacy_load_poll E t 10) (\<lambda>_.
     andthen (wait_for_recaptcha E t) (\<lambda>recaptcha_ready.
       if \<not> recaptcha_ready then
         andthen (log ERROR 351) (\<lambda>_.
         ret PNone)
       else
         andthen (log INFO 355) (\<lambda>_.
         andthen (execute_recaptcha_on_tab E t) (\<lambda>token.
         andthen (time_time E) (\<lambda>_.
           if truthy token then
             andthen (log INFO 361) (\<lambda>_.
             ret token)
           else
             andthen (log ERROR 364) (\<lambda>_.
             ret PNone))))))))"

text \<open>The \<^verbatim>\<open>except Exception\<close> clause, lines 367 to 369.\<close>

definition legacy_except :: "exn \<Rightarrow> pyval prog" where
  "legacy_except e =
     andthen (log ERROR 368) (\<lambda>_.
     ret PNone)"

text \<open>The \<^verbatim>\<open>finally\<close> clause, lines 370 to 376, for a value of \<^verbatim>\<open>tab\<close>.\<close>

definition legacy_finally :: "env \<Rightarrow> tab option \<Rightarrow> unit prog" where
  "legacy_finally E t =
     (if t \<noteq> None then try_except (tab_close E t) (\<lambda>e. ret ()) else ret ())"

text \<open>The outcome of a program as a value: nothing is raised.\<close>

definition attempt :: "'a prog \<Rightarrow> (exn + 'a) prog" where
  "attempt m st = (case m st of (r, st') \<Rightarrow> (Inr r, st'))"

text \<open>
  \<^verbatim>\<open>_get_token_legacy(self, project_id)\<close>, lines 313 to 376. When the first part
  of the \<^verbatim>\<open>try\<close> raises, \<^verbatim>\<open>tab\<close> is still \<^verbatim>\<open>None\<close> in the handler and in
  the \<^verbatim>\<open>finally\<close> clause; otherwise it holds the tab that was opened.
\<close>

definition get_token_legacy :: "env \<Rightarrow> string \<Rightarrow> pyval prog" where
  "get_token_legacy E project_id =
     andthen (emit (Call_get_token_legacy project_id)) (\<lambda>_.
     andthen get_self (\<lambda>s.
     andthen (if \<not> initialized s \<or> browser s = None then initialize E else ret ()) (\<lambda>_.
     andthen (time_time E) (\<lambda>start_time.
     andthen (attempt (legacy_open E project_id)) (\<lambda>opened.
       case opened of
         Inl e \<Rightarrow>
           try_finally (legacy_except e) (legacy_finally E None)
       | Inr t \<Rightarrow>
           try_finally (try_except (legacy_rest E (Some t)) legacy_except)
             (legacy_finally E (Some t)))))))"

subsection \<open>The service facade\<close>

text \<open>
  \<^verbatim>\<open>get_token(self, project_id)\<close>, lines 283 to 311. The first block yields
  \<open>Some token\<close> when the method returns from inside it, \<open>None\<close> when control goes on
  to the fallback.
\<close>

definition get_token :: "env \<Rightarrow> string \<Rightarrow> pyval prog" where
  "get_token E project_id =
     andthen get_self (\<lambda>s.
     andthen
       (if running s \<and> resident_project_id s = Some project_id then
          if recaptcha_ready s \<and> resident_tab s \<noteq> None then
            andthen (time_time E) (\<lambda>start_time.
            andthen (log INFO 299) (\<lambda>_.
            andthen (execute_recaptcha_on_tab E (resident_tab s)) (\<lambda>token.
            andthen (time_time E) (\<lambda>_.
              if truthy token then
                andthen (log INFO 303) (\<lambda>_.
                ret (Some token))
              else
                andthen (log WARNING 306) (\<lambda>_.
                ret None)))))
          else
            andthen (log WARNING 308) (\<lambda>_.
            ret None)
        else ret None)
       (\<lambda>returned. case returned of
          Some token \<Rightarrow> ret token
        | None \<Rightarrow> get_token_legacy E project_id))"

text \<open>\<^verbatim>\<open>close(self)\<close>, lines 378 to 395.\<close>

definition close :: "env \<Rightarrow> unit prog" where
  "close E =
     andthen (stop_resident_mode E) (\<lambda>_.
     try_except
       (andthen get_self (\<lambda>s.
        andthen
          (if browser s \<noteq> None then
             try_finally
               (try_except (browser_stop E (browser s)) (\<lambda>e. log WARNING 388))
               (set_self (\<lambda>s. s\<lparr>browser := None\<rparr>))
           else ret ()) (\<lambda>_.
        andthen (set_self (\<lambda>s. s\<lparr>initialized := False\<rparr>)) (\<lambda>_.
        log INFO 393))))
       (\<lambda>e. log ERROR 395))"

subsection \<open>Status queries\<close>

definition is_resident_mode_active :: "service \<Rightarrow> bool" where
  "is_resident_mode_active s = running s"

definition get_resident_project_id :: "service \<Rightarrow> string option" where
  "get_resident_project_id s = resident_project_id s"

text \<open>
  \<^verbatim>\<open>get_queue_size(self)\<close>, lines 410 to 412, reads \<^verbatim>\<open>self.token_queue\<close> and
  calls \<^verbatim>\<open>qsize()\<close> on it. An attribute is looked up among those of the
  instance, which are the ones \<^verbatim>\<open>__init__\<close> assigns (the fields of \<open>service\<close>;
  no method assigns any other), then among those of the class; a name found in neither
  raises \<^verbatim>\<open>AttributeError\<close>. (The attributes every object inherits, such as
  \<^verbatim>\<open>__class__\<close>, are left out.)
\<close>

datatype pyobj =
    Plain pyval
  | Text string
  | Text_opt "string option"
  | Handle "nat option"
  | Class_attr string
  | Queue "pyval list"

definition instance_attr :: "service \<Rightarrow> string \<Rightarrow> pyobj option" where
  "instance_attr s name =
     (if name = ''headless'' then Some (Plain (PBool (headless s)))
      else if name = ''browser'' then Some (Handle (browser s))
      else if name = ''_initialized'' then Some (Plain (PBool (initialized s)))
      else if name = ''website_key'' then Some (Text (website_key s))
      else if name = ''db'' then Some (Plain (db s))
      else if name = ''user_data_dir'' then Some (Text (user_data_dir s))
      else if name = ''resident_project_id'' then Some (Text_opt (resident_project_id s))
      else if name = ''resident_tab'' then Some (Handle (resident_tab s))
      else if name = ''_running'' then Some (Plain (PBool (running s)))
      else if name = ''_recaptcha_ready'' then Some (Plain (PBool (recaptcha_ready s)))
      else None)"

definition class_attrs :: "string list" where
  "class_attrs =
     [''_instance'', ''_lock'', ''__init__'', ''get_instance'', ''initialize'',
      ''start_resident_mode'', ''stop_resident_mode'', ''_wait_for_recaptcha'',
      ''_execute_recaptcha_on_tab'', ''get_token'', ''_get_token_legacy'', ''close'',
      ''open_login_window'', ''is_resident_mode_active'', ''get_queue_size'',
      ''get_resident_project_id'']"

definition getattr :: "service \<Rightarrow> string \<Rightarrow> exn + pyobj" where
  "getattr s name = (case instance_attr s name of
      Some v \<Rightarrow> Inr v
    | None \<Rightarrow> if name \<in> set class_attrs then Inr (Class_attr name) else Inl AttributeError)"

text \<open>\<^verbatim>\<open>q.qsize()\<close>: a queue answers with its size, no other object has the method.\<close>

fun qsize :: "pyobj \<Rightarrow> exn + int" where
  "qsize (Queue xs) = Inr (int (length xs))"
| "qsize (Plain v) = Inl AttributeError"
| "qsize (Text v) = Inl AttributeError"
| "qsize (Text_opt v) = Inl AttributeError"
| "qsize (Handle v) = Inl AttributeError"
| "qsize (Class_attr v) = Inl AttributeError"

definition get_queue_size :: "service \<Rightarrow> exn + int" where
  "get_queue_size s = (case getattr s ''token_queue'' of
      Inl e \<Rightarrow> Inl e
    | Inr q \<Rightarrow> qsize q)"

section \<open>What is observed of a run\<close>

text \<open>The events a run adds to the trace, from the state before and the state after.\<close>

definition new_events :: "state \<Rightarrow> state \<Rightarrow> event list" where
  "new_events st st' = drop (length (trace st)) (trace st')"

text \<open>The trace only grows, and every event added satisfies \<open>P\<close>.\<close>

definition extends :: "(event \<Rightarrow> bool) \<Rightarrow> state \<Rightarrow> state \<Rightarrow> bool" where
  "extends P st st' =
     (take (length (trace st)) (trace st') = trace st \<and> list_all P (new_events st st'))"

text \<open>The attribute read by \<open>f\<close> has the value it had.\<close>

definition keeps :: "(service \<Rightarrow> 'a) \<Rightarrow> state \<Rightarrow> state \<Rightarrow> bool" where
  "keeps f st st' = (f (self st') = f (self st))"

text \<open>
  A relation between the state before and the state after that holds of doing nothing
  and of doing one thing after another; \<open>stays R m\<close> when every run of \<open>m\<close> is in it.
\<close>

definition frame :: "(state \<Rightarrow> state \<Rightarrow> bool) \<Rightarrow> bool" where
  "frame R = ((\<forall>st. R st st) \<and> (\<forall>a b c. R a b \<and> R b c \<longrightarrow> R a c))"

definition stays :: "(state \<Rightarrow> state \<Rightarrow> bool) \<Rightarrow> 'a prog \<Rightarrow> bool" where
  "stays R m = (\<forall>st. R st (snd (m st)))"

text \<open>Every value that \<open>m\<close> returns satisfies \<open>Q\<close>.\<close>

definition yields :: "('a \<Rightarrow> bool) \<Rightarrow> 'a prog \<Rightarrow> bool" where
  "yields Q m = (\<forall>st x. fst (m st) = Inr x \<longrightarrow> Q x)"

text \<open>Kinds of events.\<close>

fun is_legacy_call :: "event \<Rightarrow> bool" where
  "is_legacy_call (Call_get_token_legacy p) = True"
| "is_legacy_call ev = False"

definition legacy_calls :: "event list \<Rightarrow> nat" where
  "legacy_calls evs = length (filter is_legacy_call evs)"

fun is_injection :: "event \<Rightarrow> bool" where
  "is_injection (Tab_evaluate t (Inject_script k)) = True"
| "is_injection ev = False"

definition injections :: "event list \<Rightarrow> nat" where
  "injections evs = length (filter is_injection evs)"

fun is_check :: "event \<Rightarrow> bool" where
  "is_check (Tab_evaluate t Enterprise_check) = True"
| "is_check ev = False"

text \<open>The readiness checks made after the first injection.\<close>

definition polls :: "event list \<Rightarrow> nat" where
  "polls evs = length (filter is_check (dropWhile (\<lambda>ev. \<not> is_injection ev) evs))"

text \<open>The tabs that \<^verbatim>\<open>browser.get\<close> returned, and the tabs that were closed.\<close>

fun opened_tabs :: "event list \<Rightarrow> tab list" where
  "opened_tabs [] = []"
| "opened_tabs (Browser_get b url new_tab (Inr t) # evs) = t # opened_tabs evs"
| "opened_tabs (ev # evs) = opened_tabs evs"

fun closed_tabs :: "event list \<Rightarrow> tab list" where
  "closed_tabs [] = []"
| "closed_tabs (Tab_close t # evs) = t # closed_tabs evs"
| "closed_tabs (ev # evs) = closed_tabs evs"

fun is_browser_get :: "event \<Rightarrow> bool" where
  "is_browser_get (Browser_get b url new_tab r) = True"
| "is_browser_get ev = False"

fun is_browser_stop :: "event \<Rightarrow> bool" where
  "is_browser_stop (Browser_stop b) = True"
| "is_browser_stop ev = False"

fun is_uc_start :: "event \<Rightarrow> bool" where
  "is_uc_start (Uc_start hl dir) = True"
| "is_uc_start ev = False"

text \<open>Events on one page: logs, clock reads, and evaluations and sleeps on that tab.\<close>

fun page_event :: "tab option \<Rightarrow> event \<Rightarrow> bool" where
  "page_event topt (Log lv n) = True"
| "page_event topt Time_time = True"
| "page_event topt (Tab_evaluate t scr) = (topt = Some t)"
| "page_event topt (Tab_sleep t ms) = (topt = Some t)"
| "page_event topt ev = False"

text \<open>The same, but for the log of line 368, which is the handler's.\<close>

fun body_event :: "tab option \<Rightarrow> event \<Rightarrow> bool" where
  "body_event topt (Log lv n) = (n \<noteq> 368)"
| "body_event topt Time_time = True"
| "body_event topt (Tab_evaluate t scr) = (topt = Some t)"
| "body_event topt (Tab_sleep t ms) = (topt = Some t)"
| "body_event topt ev = False"

text \<open>Events of starting the browser; its logs are those of lines 59 to 92.\<close>

fun launch_event :: "event \<Rightarrow> bool" where
  "launch_event (Log lv n) = (n \<in> {59, 64, 68, 89, 92})"
| "launch_event (Os_makedirs dir) = True"
| "launch_event (Uc_start hl dir) = True"
| "launch_event (Browser_stopped b) = True"
| "launch_event ev = False"

text \<open>
  Events that open or close nothing and are not a call of the legacy acquirer: all but
  \<open>Browser_get\<close>, \<open>Tab_close\<close>, \<open>Browser_stop\<close> and \<open>Call_get_token_legacy\<close>.
\<close>

fun quiet :: "event \<Rightarrow> bool" where
  "quiet (Browser_get b url new_tab r) = False"
| "quiet (Tab_close t) = False"
| "quiet (Browser_stop b) = False"
| "quiet (Call_get_token_legacy p) = False"
| "quiet ev = True"

text \<open>Assumptions on a page, for the claims that make them.\<close>

definition never_ready :: "env \<Rightarrow> tab \<Rightarrow> bool" where
  "never_ready E t = (\<forall>n. \<exists>v. on_evaluate E n t Enterprise_check = Inr v \<and> \<not> truthy v)"

definition page_responds :: "env \<Rightarrow> tab \<Rightarrow> bool" where
  "page_responds E t =
     ((\<forall>n k. \<exists>v. on_evaluate E n t (Inject_script k) = Inr v) \<and>
      (\<forall>n ms. on_sleep E n t ms = None))"

text \<open>The token variable of the page holds a string or null whenever it is read.\<close>

fun str_or_none :: "pyval \<Rightarrow> bool" where
  "str_or_none PNone = True"
| "str_or_none (PStr s) = True"
| "str_or_none v = False"

text \<open>
  What \<^verbatim>\<open>get_token\<close> may return: \<^verbatim>\<open>None\<close> or a true value, which is not
  the empty string; and a string when it is a value of the kind the page holds.
\<close>

definition token_or_none :: "pyval \<Rightarrow> bool" where
  "token_or_none v = (v = PNone \<or> truthy v)"

definition token_reads_are_strings :: "env \<Rightarrow> bool" where
  "token_reads_are_strings E =
     (\<forall>n t ts v. on_evaluate E n t (Read_token ts) = Inr v \<longrightarrow> str_or_none v)"

definition returned_ok :: "env \<Rightarrow> pyval \<Rightarrow> bool" where
  "returned_ok E v = (token_or_none v \<and> (token_reads_are_strings E \<longrightarrow> str_or_none v))"

section \<open>Environments and states for the examples\<close>

text \<open>
  A browser on which everything works: pages are complete and ready at once and the
  challenge yields the token \<open>''tok''\<close>. New tabs get the number 7, reused ones 8.
\<close>

definition E_ok :: env where
  "E_ok = \<lparr>
     on_makedirs = (\<lambda>n dir. None),
     on_start = (\<lambda>n hl dir. Inr 1),
     on_stopped = (\<lambda>n b. Inr False),
     on_get = (\<lambda>n b url new_tab. Inr (if new_tab then 7 else 8)),
     on_stop = (\<lambda>n b. None),
     on_evaluate = (\<lambda>n t scr. case scr of
         Ready_state \<Rightarrow> Inr (PStr ''complete'')
       | Enterprise_check \<Rightarrow> Inr (PBool True)
       | Read_token ts \<Rightarrow> Inr (PStr ''tok'')
       | _ \<Rightarrow> Inr PNone),
     on_sleep = (\<lambda>n t ms. None),
     on_close = (\<lambda>n t. None),
     on_time = (\<lambda>n. 1000) \<rparr>"

text \<open>The same browser, but no page ever finishes loading.\<close>

definition E_stuck :: env where
  "E_stuck = E_ok\<lparr> on_evaluate := (\<lambda>n t scr. case scr of
         Ready_state \<Rightarrow> Inr (PStr ''loading'')
       | Enterprise_check \<Rightarrow> Inr (PBool True)
       | Read_token ts \<Rightarrow> Inr (PStr ''tok'')
       | _ \<Rightarrow> Inr PNone) \<rparr>"

text \<open>The same browser, but the challenge library never loads.\<close>

definition E_unready :: env where
  "E_unready = E_ok\<lparr> on_evaluate := (\<lambda>n t scr. case scr of
         Ready_state \<Rightarrow> Inr (PStr ''complete'')
       | Enterprise_check \<Rightarrow> Inr (PBool False)
       | Read_token ts \<Rightarrow> Inr (PStr ''tok'')
       | _ \<Rightarrow> Inr PNone) \<rparr>"

text \<open>The same browser, but the challenge reports an error and no token.\<close>

definition E_null :: env where
  "E_null = E_ok\<lparr> on_evaluate := (\<lambda>n t scr. case scr of
         Ready_state \<Rightarrow> Inr (PStr ''complete'')
       | Enterprise_check \<Rightarrow> Inr (PBool True)
       | Read_error ts \<Rightarrow> Inr (PStr ''execute failed'')
       | _ \<Rightarrow> Inr PNone) \<rparr>"

text \<open>The same browser, but every evaluation on a page raises.\<close>

definition E_broken :: env where
  "E_broken = E_ok\<lparr> on_evaluate := (\<lambda>n t scr. Inl (OtherException ''page crashed'')) \<rparr>"

text \<open>
  The same browser, but \<^verbatim>\<open>browser.get\<close> without \<^verbatim>\<open>new_tab\<close> opens nothing: it
  navigates the first page tab there is and answers it, here tab 7, the resident one (as
  when the tab the browser started with has been closed by an earlier request).
\<close>

definition E_reuse :: env where
  "E_reuse = E_ok\<lparr> on_get := (\<lambda>n b url new_tab. Inr 7) \<rparr>"

text \<open>The same machine, but the browser does not start.\<close>

definition E_nolaunch :: env where
  "E_nolaunch = E_ok\<lparr> on_start := (\<lambda>n hl dir. Inl (OtherException ''launch failed'')) \<rparr>"

text \<open>A fresh service, and one whose resident channel runs for project \<open>''p''\<close> on tab 7.\<close>

definition st_fresh :: state where
  "st_fresh = \<lparr> self = init ''/app'' PNone, trace = [] \<rparr>"

definition st_resident :: state where
  "st_resident = \<lparr>
     self = (init ''/app'' PNone)\<lparr>
       browser := Some 1, initialized := True, resident_project_id := Some ''p'',
       resident_tab := Some 7, running := True, recaptcha_ready := True \<rparr>,
     trace = [] \<rparr>"

section \<open>Proof rules\<close>

lemma extends_iff: "extends P st st' = (\<exists>evs. trace st' = trace st @ evs \<and> list_all P evs)"
  unfolding extends_def new_events_def
  by (metis append_eq_conv_conj)

lemma new_events_append: "trace st' = trace st @ evs \<Longrightarrow> new_events st st' = evs"
  by (simp add: new_events_def)

lemma extends_new_events:
  "extends P st st' \<Longrightarrow> trace st' = trace st @ new_events st st' \<and> list_all P (new_events st st')"
  unfolding extends_iff by (auto simp: new_events_def)

lemma extends_mono: "extends P st st' \<Longrightarrow> (\<And>ev. P ev \<Longrightarrow> Q ev) \<Longrightarrow> extends Q st st'"
  unfolding extends_iff by (auto simp: list_all_iff)

lemma new_events_trans:
  "extends P a b \<Longrightarrow> extends Q b c \<Longrightarrow> new_events a c = new_events a b @ new_events b c"
  unfolding extends_iff by (auto simp: new_events_def)

lemma frame_extends: "frame (extends P)"
  unfolding frame_def extends_iff by auto

lemma frame_keeps: "frame (keeps f)"
  unfolding frame_def keeps_def by auto

lemma staysD: "stays R m \<Longrightarrow> R st (snd (m st))"
  by (simp add: stays_def)

lemma stays_mono: "stays (extends P) m \<Longrightarrow> (\<And>ev. P ev \<Longrightarrow> Q ev) \<Longrightarrow> stays (extends Q) m"
  unfolding stays_def using extends_mono by blast

lemma stays_ret: "frame R \<Longrightarrow> stays R (ret x)"
  by (simp add: frame_def stays_def ret_def)

lemma stays_raise: "frame R \<Longrightarrow> stays R (raise e)"
  by (simp add: frame_def stays_def raise_def)

lemma stays_get_self: "frame R \<Longrightarrow> stays R get_self"
  by (simp add: frame_def stays_def get_self_def)

lemma stays_andthen:
  assumes "frame R" "stays R m" "\<And>x. stays R (k x)"
  shows "stays R (andthen m k)"
proof -
  have "R st (snd (andthen m k st))" for st
  proof (cases "m st")
    case (Pair r st')
    have a: "R st st'" using staysD[OF assms(2), of st] Pair by simp
    show ?thesis
    proof (cases r)
      case (Inl e)
      then show ?thesis using a Pair by (simp add: andthen_def)
    next
      case (Inr x)
      have "R st' (snd (k x st'))" using assms(3) by (rule staysD)
      then have "R st (snd (k x st'))" using a assms(1) unfolding frame_def by blast
      then show ?thesis using Pair Inr by (simp add: andthen_def)
    qed
  qed
  then show ?thesis unfolding stays_def by blast
qed

lemma stays_try_except:
  assumes "frame R" "stays R m" "\<And>e. stays R (h e)"
  shows "stays R (try_except m h)"
proof -
  have "R st (snd (try_except m h st))" for st
  proof (cases "m st")
    case (Pair r st')
    have a: "R st st'" using staysD[OF assms(2), of st] Pair by simp
    show ?thesis
    proof (cases r)
      case (Inr x)
      then show ?thesis using a Pair by (simp add: try_except_def)
    next
      case (Inl e)
      have "R st' (snd (h e st'))" using assms(3) by (rule staysD)
      then have "R st (snd (h e st'))" using a assms(1) unfolding frame_def by blast
      then show ?thesis using Pair Inl by (simp add: try_except_def)
    qed
  qed
  then show ?thesis unfolding stays_def by blast
qed

lemma stays_try_finally:
  assumes "frame R" "stays R m" "stays R f"
  shows "stays R (try_finally m f)"
proof -
  have "R st (snd (try_finally m f st))" for st
  proof (cases "m st")
    case (Pair r st')
    have a: "R st st'" using staysD[OF assms(2), of st] Pair by simp
    have "R st' (snd (f st'))" using assms(3) by (rule staysD)
    then have "R st (snd (f st'))" using a assms(1) unfolding frame_def by blast
    then show ?thesis using Pair by (auto simp: try_finally_def split: prod.splits sum.splits)
  qed
  then show ?thesis unfolding stays_def by blast
qed

lemma stays_attempt: "stays R m \<Longrightarrow> stays R (attempt m)"
  by (simp add: stays_def attempt_def split: prod.splits) (metis snd_conv)

lemma stays_if: "stays R a \<Longrightarrow> stays R b \<Longrightarrow> stays R (if c then a else b)"
  by simp

lemma stays_case_option:
  "stays R a \<Longrightarrow> (\<And>x. stays R (b x)) \<Longrightarrow> stays R (case v of None \<Rightarrow> a | Some x \<Rightarrow> b x)"
  by (cases v) simp_all

lemma stays_case_sum:
  "(\<And>x. stays R (a x)) \<Longrightarrow> (\<And>x. stays R (b x)) \<Longrightarrow>
   stays R (case v of Inl x \<Rightarrow> a x | Inr x \<Rightarrow> b x)"
  by (cases v) simp_all

lemma stays_case_exn:
  "stays R a \<Longrightarrow> stays R b \<Longrightarrow> (\<And>x. stays R (c x)) \<Longrightarrow>
   stays R (case v of ConnectionRefusedError \<Rightarrow> a | AttributeError \<Rightarrow> b | OtherException x \<Rightarrow> c x)"
  by (cases v) simp_all

lemmas stays_control = stays_ret stays_raise stays_get_self stays_andthen stays_try_except
  stays_try_finally stays_attempt stays_if stays_case_option stays_case_sum stays_case_exn

subsection \<open>What each call adds to the trace\<close>

lemma emits_emit: "P ev \<Longrightarrow> stays (extends P) (emit ev)"
  by (simp add: stays_def extends_iff emit_def)

lemma emits_set_self: "stays (extends P) (set_self f)"
  by (simp add: stays_def extends_iff set_self_def)

lemma emits_call_unit: "P ev \<Longrightarrow> stays (extends P) (call_unit ev a)"
  by (simp add: stays_def extends_iff call_unit_def)

lemma emits_call_val: "P ev \<Longrightarrow> stays (extends P) (call_val ev a)"
  by (simp add: stays_def extends_iff call_val_def)

lemma emits_log: "P (Log lv n) \<Longrightarrow> stays (extends P) (log lv n)"
  by (simp add: log_def emits_emit)

lemma emits_asyncio_sleep: "P (Asyncio_sleep ms) \<Longrightarrow> stays (extends P) (asyncio_sleep ms)"
  by (simp add: asyncio_sleep_def emits_emit)

lemma emits_time_time: "P Time_time \<Longrightarrow> stays (extends P) (time_time E)"
  by (simp add: time_time_def emits_call_val)

lemma emits_os_makedirs: "P (Os_makedirs dir) \<Longrightarrow> stays (extends P) (os_makedirs E dir)"
  by (simp add: os_makedirs_def emits_call_unit)

lemma emits_uc_start: "P (Uc_start hl dir) \<Longrightarrow> stays (extends P) (uc_start E hl dir)"
  by (simp add: uc_start_def emits_call_val)

lemma emits_browser_stopped:
  "(\<And>b. bo = Some b \<Longrightarrow> P (Browser_stopped b)) \<Longrightarrow> stays (extends P) (browser_stopped E bo)"
  by (cases bo) (simp_all add: browser_stopped_def emits_call_val stays_raise frame_extends)

lemma emits_browser_get:
  "(\<And>b r. bo = Some b \<Longrightarrow> P (Browser_get b url nt r)) \<Longrightarrow> stays (extends P) (browser_get E bo url nt)"
  by (cases bo) (simp_all add: stays_def extends_iff browser_get_def call_val_def raise_def)

lemma emits_tab_evaluate:
  "(\<And>t. topt = Some t \<Longrightarrow> P (Tab_evaluate t scr)) \<Longrightarrow> stays (extends P) (tab_evaluate E topt scr)"
  by (cases topt) (simp_all add: tab_evaluate_def emits_call_val stays_raise frame_extends)

lemma emits_tab_sleep:
  "(\<And>t. topt = Some t \<Longrightarrow> P (Tab_sleep t ms)) \<Longrightarrow> stays (extends P) (tab_sleep E topt ms)"
  by (cases topt) (simp_all add: tab_sleep_def emits_call_unit stays_raise frame_extends)

lemma emits_tab_close:
  "(\<And>t. topt = Some t \<Longrightarrow> P (Tab_close t)) \<Longrightarrow> stays (extends P) (tab_close E topt)"
  by (cases topt) (simp_all add: tab_close_def emits_call_unit stays_raise frame_extends)

lemmas emits_calls = frame_extends emits_emit emits_set_self emits_log emits_asyncio_sleep
  emits_time_time emits_os_makedirs emits_uc_start emits_browser_stopped emits_browser_get
  emits_tab_evaluate emits_tab_sleep emits_tab_close

subsection \<open>What each call leaves of the object\<close>

lemma keeps_emit: "stays (keeps f) (emit ev)"
  by (simp add: stays_def keeps_def emit_def)

lemma keeps_call_unit: "stays (keeps f) (call_unit ev a)"
  by (simp add: stays_def keeps_def call_unit_def)

lemma keeps_call_val: "stays (keeps f) (call_val ev a)"
  by (simp add: stays_def keeps_def call_val_def)

lemma keeps_set_self: "(\<And>s. f (g s) = f s) \<Longrightarrow> stays (keeps f) (set_self g)"
  by (simp add: stays_def keeps_def set_self_def)

lemma keeps_log: "stays (keeps f) (log lv n)"
  by (simp add: log_def keeps_emit)

lemma keeps_asyncio_sleep: "stays (keeps f) (asyncio_sleep ms)"
  by (simp add: asyncio_sleep_def keeps_emit)

lemma keeps_time_time: "stays (keeps f) (time_time E)"
  by (simp add: time_time_def keeps_call_val)

lemma keeps_os_makedirs: "stays (keeps f) (os_makedirs E dir)"
  by (simp add: os_makedirs_def keeps_call_unit)

lemma keeps_uc_start: "stays (keeps f) (uc_start E hl dir)"
  by (simp add: uc_start_def keeps_call_val)

lemma keeps_browser_stopped: "stays (keeps f) (browser_stopped E bo)"
  by (cases bo) (simp_all add: browser_stopped_def keeps_call_val stays_raise frame_keeps)

lemma keeps_browser_get: "stays (keeps f) (browser_get E bo url nt)"
  by (cases bo) (simp_all add: stays_def keeps_def browser_get_def call_val_def raise_def)

lemma keeps_tab_evaluate: "stays (keeps f) (tab_evaluate E topt scr)"
  by (cases topt) (simp_all add: tab_evaluate_def keeps_call_val stays_raise frame_keeps)

lemma keeps_tab_sleep: "stays (keeps f) (tab_sleep E topt ms)"
  by (cases topt) (simp_all add: tab_sleep_def keeps_call_unit stays_raise frame_keeps)

lemma keeps_tab_close: "stays (keeps f) (tab_close E topt)"
  by (cases topt) (simp_all add: tab_close_def keeps_call_unit stays_raise frame_keeps)

lemmas keeps_calls = frame_keeps keeps_emit keeps_set_self keeps_log keeps_asyncio_sleep
  keeps_time_time keeps_os_makedirs keeps_uc_start keeps_browser_stopped keeps_browser_get
  keeps_tab_evaluate keeps_tab_sleep keeps_tab_close

subsection \<open>The trace of each method\<close>

lemma body_event_page: "body_event topt ev \<Longrightarrow> page_event topt ev"
  by (cases ev) simp_all

lemma wait_poll_body: "stays (extends (body_event t)) (wait_poll E t n)"
  by (induction n) (auto intro!: stays_control emits_calls)

lemma wait_for_recaptcha_body: "stays (extends (body_event t)) (wait_for_recaptcha E t)"
  unfolding wait_for_recaptcha_def
  by (auto intro!: stays_control emits_calls wait_poll_body)

lemma execute_poll_body: "stays (extends (body_event t)) (execute_poll E t ts n tok)"
  by (induction n arbitrary: tok) (auto intro!: stays_control emits_calls)

lemma execute_body: "stays (extends (body_event t)) (execute_recaptcha_on_tab E t)"
  unfolding execute_recaptcha_on_tab_def
  by (auto intro!: stays_control emits_calls execute_poll_body)

lemma legacy_load_poll_body: "stays (extends (body_event t)) (legacy_load_poll E t n)"
  by (induction n) (auto intro!: stays_control emits_calls)

lemma legacy_rest_body: "stays (extends (body_event t)) (legacy_rest E t)"
  unfolding legacy_rest_def
  by (auto intro!: stays_control emits_calls legacy_load_poll_body wait_for_recaptcha_body execute_body)

lemma wait_for_recaptcha_page: "stays (extends (page_event t)) (wait_for_recaptcha E t)"
  by (rule stays_mono[OF wait_for_recaptcha_body]) (rule body_event_page)

lemma execute_page: "stays (extends (page_event t)) (execute_recaptcha_on_tab E t)"
  by (rule stays_mono[OF execute_body]) (rule body_event_page)

lemma initialize_launch: "stays (extends launch_event) (initialize E)"
  unfolding initialize_def
  by (auto intro!: stays_control emits_calls)

subsection \<open>The attributes each method leaves alone\<close>

lemma initialize_keeps:
  assumes "\<And>s b. f (s\<lparr>browser := b\<rparr>) = f s" "\<And>s b. f (s\<lparr>initialized := b\<rparr>) = f s"
  shows "stays (keeps f) (initialize E)"
  unfolding initialize_def
  by (auto intro!: stays_control keeps_calls simp: assms)

lemma wait_poll_keeps: "stays (keeps f) (wait_poll E t n)"
  by (induction n) (auto intro!: stays_control keeps_calls)

lemma wait_for_recaptcha_keeps: "stays (keeps f) (wait_for_recaptcha E t)"
  unfolding wait_for_recaptcha_def
  by (auto intro!: stays_control keeps_calls wait_poll_keeps)

lemma execute_poll_keeps: "stays (keeps f) (execute_poll E t ts n tok)"
  by (induction n arbitrary: tok) (auto intro!: stays_control keeps_calls)

lemma execute_keeps: "stays (keeps f) (execute_recaptcha_on_tab E t)"
  unfolding execute_recaptcha_on_tab_def
  by (auto intro!: stays_control keeps_calls execute_poll_keeps)

lemma legacy_load_poll_keeps: "stays (keeps f) (legacy_load_poll E t n)"
  by (induction n) (auto intro!: stays_control keeps_calls)

lemma legacy_rest_keeps: "stays (keeps f) (legacy_rest E t)"
  unfolding legacy_rest_def
  by (auto intro!: stays_control keeps_calls legacy_load_poll_keeps wait_for_recaptcha_keeps execute_keeps)

lemma get_token_legacy_keeps:
  assumes "\<And>s b. f (s\<lparr>browser := b\<rparr>) = f s" "\<And>s b. f (s\<lparr>initialized := b\<rparr>) = f s"
  shows "stays (keeps f) (get_token_legacy E pid)"
  unfolding get_token_legacy_def legacy_open_def legacy_except_def legacy_finally_def
  by (auto intro!: stays_control keeps_calls legacy_rest_keeps initialize_keeps simp: assms)

lemma get_token_keeps:
  assumes "\<And>s b. f (s\<lparr>browser := b\<rparr>) = f s" "\<And>s b. f (s\<lparr>initialized := b\<rparr>) = f s"
  shows "stays (keeps f) (get_token E pid)"
  unfolding get_token_def
  by (auto intro!: stays_control keeps_calls execute_keeps get_token_legacy_keeps simp: assms)

subsection \<open>Counting events\<close>

lemma opened_tabs_append: "opened_tabs (xs @ ys) = opened_tabs xs @ opened_tabs ys"
  by (induction xs rule: opened_tabs.induct) simp_all

lemma closed_tabs_append: "closed_tabs (xs @ ys) = closed_tabs xs @ closed_tabs ys"
  by (induction xs rule: closed_tabs.induct) simp_all

lemma legacy_calls_append: "legacy_calls (xs @ ys) = legacy_calls xs + legacy_calls ys"
  by (simp add: legacy_calls_def)

lemma quiet_opened: "list_all quiet evs \<Longrightarrow> opened_tabs evs = []"
  by (induction evs rule: opened_tabs.induct) simp_all

lemma quiet_closed: "list_all quiet evs \<Longrightarrow> closed_tabs evs = []"
  by (induction evs rule: closed_tabs.induct) simp_all

lemma quiet_calls: "list_all quiet evs \<Longrightarrow> legacy_calls evs = 0"
  unfolding legacy_calls_def
  by (induction evs) (auto elim: quiet.elims)

lemma quiet_stops: "list_all quiet evs \<Longrightarrow> list_all (\<lambda>ev. \<not> is_browser_stop ev) evs"
  by (induction evs) (auto elim: is_browser_stop.elims)

lemma page_event_quiet: "page_event topt ev \<Longrightarrow> quiet ev"
  by (cases ev) simp_all

lemma launch_event_quiet: "launch_event ev \<Longrightarrow> quiet ev"
  by (cases ev) simp_all

lemma page_events_quiet: "list_all (page_event topt) evs \<Longrightarrow> list_all quiet evs"
  by (auto simp: list_all_iff intro: page_event_quiet)

lemma page_events_tab:
  "list_all (page_event topt) evs \<Longrightarrow> Tab_evaluate t scr \<in> set evs \<Longrightarrow> topt = Some t"
  by (auto simp: list_all_iff)

subsection \<open>The events of the legacy acquirer\<close>

text \<open>
  After the clock is read: the tab is opened, used and closed. \<open>legacy_tail\<close> says what the
  events after \<open>Log INFO 331\<close> may be.
\<close>

lemma legacy_try_events:
  fixes E pid
  defines "body \<equiv> andthen (attempt (legacy_open E pid)) (\<lambda>opened.
       case opened of
         Inl e \<Rightarrow> try_finally (legacy_except e) (legacy_finally E None)
       | Inr t \<Rightarrow> try_finally (try_except (legacy_rest E (Some t)) legacy_except)
             (legacy_finally E (Some t)))"
  shows "\<exists>r. fst (body st) = Inr r \<and>
     (trace (snd (body st)) = trace st @ [Log INFO 331, Log ERROR 368] \<and> r = PNone
      \<or> (\<exists>b e. trace (snd (body st)) =
            trace st @ [Log INFO 331, Browser_get b (website_url pid) False (Inl e), Log ERROR 368]
            \<and> r = PNone)
      \<or> (\<exists>b t pg. trace (snd (body st)) =
            trace st @ [Log INFO 331, Browser_get b (website_url pid) False (Inr t)] @ pg @ [Tab_close t]
            \<and> list_all (page_event (Some t)) pg
            \<and> (Log ERROR 368 \<in> set pg \<longrightarrow> r = PNone)))"
proof (cases "browser (self st)")
  case None
  then show ?thesis
    by (simp add: body_def andthen_def attempt_def legacy_open_def log_def emit_def get_self_def
        browser_get_def raise_def try_finally_def legacy_except_def legacy_finally_def ret_def)
next
  case (Some b)
  let ?st1 = "st\<lparr>trace := trace st @ [Log INFO 331]\<rparr>"
  let ?r = "on_get E (Suc (length (trace st))) b (website_url pid) False"
  let ?st2 = "st\<lparr>trace := trace st @ [Log INFO 331, Browser_get b (website_url pid) False ?r]\<rparr>"
  have opened: "attempt (legacy_open E pid) st = (Inr ?r, ?st2)"
    using Some
    by (simp add: andthen_def attempt_def legacy_open_def log_def emit_def get_self_def
        browser_get_def call_val_def)
  show ?thesis
  proof (cases ?r)
    case (Inl e)
    then show ?thesis using opened
      by (simp add: body_def andthen_def try_finally_def legacy_except_def legacy_finally_def
          ret_def log_def emit_def)
  next
    case (Inr t)
    let ?m = "try_except (legacy_rest E (Some t)) legacy_except"
    obtain o3 st3 where rest: "legacy_rest E (Some t) ?st2 = (o3, st3)"
      by (cases "legacy_rest E (Some t) ?st2")
    obtain bd where bd: "trace st3 = trace ?st2 @ bd" "list_all (body_event (Some t)) bd"
      using staysD[OF legacy_rest_body[of "Some t" E], of ?st2] rest unfolding extends_iff by auto
    have no368: "Log ERROR 368 \<notin> set bd"
      using bd(2) by (auto simp: list_all_iff)
    have bdpg: "list_all (page_event (Some t)) bd"
      using bd(2) by (auto simp: list_all_iff intro: body_event_page)
    have "\<exists>r pg. ?m ?st2 = (Inr r, st3\<lparr>trace := trace ?st2 @ pg\<rparr>) \<and> list_all (page_event (Some t)) pg
        \<and> (Log ERROR 368 \<in> set pg \<longrightarrow> r = PNone)"
    proof (cases o3)
      case (Inl e)
      then have "?m ?st2 = (Inr PNone, st3\<lparr>trace := trace ?st2 @ (bd @ [Log ERROR 368])\<rparr>)"
        using rest bd(1) by (simp add: try_except_def legacy_except_def andthen_def log_def emit_def ret_def)
      then show ?thesis using bdpg by (intro exI conjI) (assumption, simp_all)
    next
      case (Inr r)
      then have "?m ?st2 = (Inr r, st3\<lparr>trace := trace ?st2 @ bd\<rparr>)"
        using rest bd(1) by (simp add: try_except_def)
      then show ?thesis using bdpg no368 by (intro exI conjI) (assumption, simp_all)
    qed
    then obtain r pg where m: "?m ?st2 = (Inr r, st3\<lparr>trace := trace ?st2 @ pg\<rparr>)"
      and pg: "list_all (page_event (Some t)) pg" and r: "Log ERROR 368 \<in> set pg \<longrightarrow> r = PNone"
      by blast
    have fin: "try_finally ?m (legacy_finally E (Some t)) ?st2
        = (Inr r, st3\<lparr>trace := trace ?st2 @ pg @ [Tab_close t]\<rparr>)"
      using m
      by (simp add: try_finally_def legacy_finally_def try_except_def tab_close_def call_unit_def ret_def
          split: prod.splits option.splits sum.splits)
    have "body st = try_finally ?m (legacy_finally E (Some t)) ?st2"
      using opened Inr by (simp add: body_def andthen_def)
    then show ?thesis using fin pg r Inr by auto
  qed
qed

lemma launch_events_quiet: "list_all launch_event evs \<Longrightarrow> list_all quiet evs"
  by (auto simp: list_all_iff intro: launch_event_quiet)

lemma launch_events_no_evaluate: "list_all launch_event evs \<Longrightarrow> Tab_evaluate t scr \<notin> set evs"
  by (auto simp: list_all_iff)

lemma launch_events_no_368: "list_all launch_event evs \<Longrightarrow> Log ERROR 368 \<notin> set evs"
  by (auto simp: list_all_iff)

text \<open>
  What every run of the legacy acquirer is like: one call marker; the tabs closed are
  the tabs opened, at most one; the browser is not stopped; when the handler has logged,
  the result is \<^verbatim>\<open>None\<close>; the only exception that leaves is one of
  \<^verbatim>\<open>initialize\<close>, before any tab is opened; evaluations go to the tab opened.
\<close>

lemma legacy_summary:
  fixes E pid st
  defines "out \<equiv> get_token_legacy E pid st"
  defines "new \<equiv> new_events st (snd out)"
  shows "trace (snd out) = trace st @ new
    \<and> (\<exists>evs. new = Call_get_token_legacy pid # evs)
    \<and> legacy_calls new = 1
    \<and> closed_tabs new = opened_tabs new
    \<and> length (opened_tabs new) \<le> 1
    \<and> list_all (\<lambda>ev. \<not> is_browser_stop ev) new
    \<and> (Log ERROR 368 \<in> set new \<longrightarrow> fst out = Inr PNone)
    \<and> (\<forall>e. fst out = Inl e \<longrightarrow> opened_tabs new = []
          \<and> (\<not> initialized (self st) \<or> browser (self st) = None)
          \<and> fst (initialize E (st\<lparr>trace := trace st @ [Call_get_token_legacy pid]\<rparr>)) = Inl e)
    \<and> (\<forall>t scr. Tab_evaluate t scr \<in> set new \<longrightarrow> t \<in> set (opened_tabs new))"
proof -
  let ?sta = "st\<lparr>trace := trace st @ [Call_get_token_legacy pid]\<rparr>"
  let ?ini = "if \<not> initialized (self st) \<or> browser (self st) = None then initialize E else ret ()"
  let ?body = "andthen (attempt (legacy_open E pid)) (\<lambda>opened.
       case opened of
         Inl e \<Rightarrow> try_finally (legacy_except e) (legacy_finally E None)
       | Inr t \<Rightarrow> try_finally (try_except (legacy_rest E (Some t)) legacy_except)
             (legacy_finally E (Some t)))"
  obtain o1 st1 where ini: "?ini ?sta = (o1, st1)"
    by (cases "?ini ?sta")
  have "stays (extends launch_event) ?ini"
    by (auto intro!: stays_control emits_calls initialize_launch)
  from staysD[OF this, of ?sta] ini
  obtain pre where pre: "trace st1 = trace st @ Call_get_token_legacy pid # pre" "list_all launch_event pre"
    unfolding extends_iff by auto
  note pre_facts = launch_events_quiet[OF pre(2), THEN quiet_opened]
    launch_events_quiet[OF pre(2), THEN quiet_closed]
    launch_events_quiet[OF pre(2), THEN quiet_calls]
    launch_events_quiet[OF pre(2), THEN quiet_stops]
    launch_events_no_evaluate[OF pre(2)] launch_events_no_368[OF pre(2)]
  let ?st1' = "st1\<lparr>trace := trace st1 @ [Time_time]\<rparr>"
  have unf: "out = (case o1 of Inl e \<Rightarrow> (Inl e, st1) | Inr u \<Rightarrow> ?body ?st1')"
    using ini
    by (simp add: out_def get_token_legacy_def andthen_def emit_def get_self_def time_time_def
        call_val_def split: sum.splits)
  show ?thesis
  proof (cases o1)
    case (Inl e)
    then have o: "out = (Inl e, st1)" using unf by simp
    have n: "new = Call_get_token_legacy pid # pre"
      using o pre(1) by (simp add: new_def new_events_def)
    have raised: "(\<not> initialized (self st) \<or> browser (self st) = None) \<and> fst (initialize E ?sta) = Inl e"
      using ini Inl by (auto simp: ret_def split: if_splits)
    show ?thesis
      using o n pre(1) pre_facts raised
      by (simp add: legacy_calls_def)
  next
    case (Inr u)
    then have o: "out = ?body ?st1'" using unf by simp
    from legacy_try_events[of E pid ?st1']
    obtain r where r: "fst (?body ?st1') = Inr r"
      and shape: "trace (snd (?body ?st1')) = trace ?st1' @ [Log INFO 331, Log ERROR 368] \<and> r = PNone
      \<or> (\<exists>b e. trace (snd (?body ?st1')) =
            trace ?st1' @ [Log INFO 331, Browser_get b (website_url pid) False (Inl e), Log ERROR 368]
            \<and> r = PNone)
      \<or> (\<exists>b t pg. trace (snd (?body ?st1')) =
            trace ?st1' @ [Log INFO 331, Browser_get b (website_url pid) False (Inr t)] @ pg @ [Tab_close t]
            \<and> list_all (page_event (Some t)) pg
            \<and> (Log ERROR 368 \<in> set pg \<longrightarrow> r = PNone))"
      by blast
    from shape show ?thesis
    proof (elim disjE exE conjE)
      assume a: "trace (snd (?body ?st1')) = trace ?st1' @ [Log INFO 331, Log ERROR 368]" "r = PNone"
      have n: "new = Call_get_token_legacy pid # pre @ [Time_time, Log INFO 331, Log ERROR 368]"
        using o a(1) pre(1) by (simp add: new_def new_events_def)
      show ?thesis
        using o r a(2) n a(1) pre(1) pre_facts
        by (simp add: legacy_calls_def opened_tabs_append closed_tabs_append)
    next
      fix b e
      assume a: "trace (snd (?body ?st1')) =
            trace ?st1' @ [Log INFO 331, Browser_get b (website_url pid) False (Inl e), Log ERROR 368]" "r = PNone"
      have n: "new = Call_get_token_legacy pid # pre @
          [Time_time, Log INFO 331, Browser_get b (website_url pid) False (Inl e), Log ERROR 368]"
        using o a(1) pre(1) by (simp add: new_def new_events_def)
      show ?thesis
        using o r a(2) n a(1) pre(1) pre_facts
        by (simp add: legacy_calls_def opened_tabs_append closed_tabs_append)
    next
      fix b t pg
      assume a: "trace (snd (?body ?st1')) =
            trace ?st1' @ [Log INFO 331, Browser_get b (website_url pid) False (Inr t)] @ pg @ [Tab_close t]"
        "list_all (page_event (Some t)) pg" "Log ERROR 368 \<in> set pg \<longrightarrow> r = PNone"
      have n: "new = Call_get_token_legacy pid # pre @
          [Time_time, Log INFO 331, Browser_get b (website_url pid) False (Inr t)] @ pg @ [Tab_close t]"
        using o a(1) pre(1) by (simp add: new_def new_events_def)
      note pg_facts = page_events_quiet[OF a(2), THEN quiet_opened]
        page_events_quiet[OF a(2), THEN quiet_closed]
        page_events_quiet[OF a(2), THEN quiet_calls]
        page_events_quiet[OF a(2), THEN quiet_stops]
      have ev: "\<And>t' scr. Tab_evaluate t' scr \<in> set pg \<Longrightarrow> t' = t"
        using page_events_tab[OF a(2)] by auto
      show ?thesis
        using o r a(3) n a(1) pre(1) pre_facts pg_facts ev
        by (auto simp: legacy_calls_def opened_tabs_append closed_tabs_append)
    qed
  qed
qed

subsection \<open>Running the model\<close>

lemma wait_poll_numeral:
  "wait_poll E t (numeral k) =
     andthen (tab_evaluate E t Enterprise_check) (\<lambda>is_enterprise.
       if truthy is_enterprise then andthen (log INFO 216) (\<lambda>_. ret True)
       else andthen (tab_sleep E t 500) (\<lambda>_. wait_poll E t (pred_numeral k)))"
  by (simp add: numeral_eq_Suc)

lemma wait_poll_1:
  "wait_poll E t 1 =
     andthen (tab_evaluate E t Enterprise_check) (\<lambda>is_enterprise.
       if truthy is_enterprise then andthen (log INFO 216) (\<lambda>_. ret True)
       else andthen (tab_sleep E t 500) (\<lambda>_. wait_poll E t 0))"
  using wait_poll.simps(2)[of E t 0] by simp

lemma execute_poll_numeral:
  "execute_poll E t ts (numeral k) tok =
     andthen (tab_sleep E t 500) (\<lambda>_.
     andthen (tab_evaluate E t (Read_token ts)) (\<lambda>token.
       if truthy token then ret token
       else
         andthen (tab_evaluate E t (Read_error ts)) (\<lambda>error.
           if truthy error then andthen (log ERROR 270) (\<lambda>_. ret token)
           else execute_poll E t ts (pred_numeral k) token)))"
  by (simp add: numeral_eq_Suc)

lemma execute_poll_1:
  "execute_poll E t ts 1 tok =
     andthen (tab_sleep E t 500) (\<lambda>_.
     andthen (tab_evaluate E t (Read_token ts)) (\<lambda>token.
       if truthy token then ret token
       else
         andthen (tab_evaluate E t (Read_error ts)) (\<lambda>error.
           if truthy error then andthen (log ERROR 270) (\<lambda>_. ret token)
           else execute_poll E t ts 0 token)))"
  using execute_poll.simps(2)[of E t ts 0 tok] by simp

lemma legacy_load_poll_numeral:
  "legacy_load_poll E t (numeral k) =
     andthen (tab_evaluate E t Ready_state) (\<lambda>ready_state.
       if ready_state = PStr ''complete'' then ret ()
       else andthen (tab_sleep E t 500) (\<lambda>_. legacy_load_poll E t (pred_numeral k)))"
  by (simp add: numeral_eq_Suc)

lemma legacy_load_poll_1:
  "legacy_load_poll E t 1 =
     andthen (tab_evaluate E t Ready_state) (\<lambda>ready_state.
       if ready_state = PStr ''complete'' then ret ()
       else andthen (tab_sleep E t 500) (\<lambda>_. legacy_load_poll E t 0))"
  using legacy_load_poll.simps(2)[of E t 0] by simp

lemma page_load_loop_numeral:
  "page_load_loop E url (numeral k) =
     andthen (page_load_round E url) (\<lambda>page_loaded.
       if page_loaded then ret True else page_load_loop E url (pred_numeral k))"
  by (simp add: numeral_eq_Suc)

lemma page_load_loop_1:
  "page_load_loop E url 1 =
     andthen (page_load_round E url) (\<lambda>page_loaded.
       if page_loaded then ret True else page_load_loop E url 0)"
  using page_load_loop.simps(2)[of E url 0] by simp

lemmas run_simps =
  andthen_def ret_def raise_def try_except_def try_finally_def attempt_def emit_def log_def
  get_self_def set_self_def call_unit_def call_val_def os_makedirs_def uc_start_def
  asyncio_sleep_def time_time_def browser_stopped_def browser_get_def browser_stop_def
  tab_evaluate_def tab_sleep_def tab_close_def
  wait_poll_numeral wait_poll_1 execute_poll_numeral execute_poll_1
  legacy_load_poll_numeral legacy_load_poll_1 page_load_loop_numeral page_load_loop_1
  page_load_round_def
  initialize_def wait_for_recaptcha_def execute_recaptcha_on_tab_def website_url_def
  resident_open_def start_resident_mode_def stop_resident_mode_def
  legacy_open_def legacy_rest_def legacy_except_def legacy_finally_def get_token_legacy_def
  get_token_def init_def path_join_def new_events_def

lemmas example_defs = E_ok_def E_stuck_def E_unready_def E_null_def E_broken_def E_nolaunch_def E_reuse_def
  st_fresh_def st_resident_def

subsection \<open>The dispatch of the facade\<close>

text \<open>
  When the resident channel is not running, or is bound to another target than \<open>U\<close>,
  \<^verbatim>\<open>get_token(U)\<close> is the legacy acquirer run from the same state: the executor is
  not called on \<^verbatim>\<open>self.resident_tab\<close> first, the legacy acquirer is called once,
  and every evaluation goes to a tab that this call got from \<^verbatim>\<open>browser.get\<close>.
  Which tab that is, the browser decides.
\<close>

lemma get_token_dispatch_legacy:
  assumes "\<not> (running (self st) \<and> resident_project_id (self st) = Some U)"
  shows "get_token E U st = get_token_legacy E U st
    \<and> legacy_calls (new_events st (snd (get_token E U st))) = 1
    \<and> (\<forall>t scr. Tab_evaluate t scr \<in> set (new_events st (snd (get_token E U st)))
          \<longrightarrow> t \<in> set (opened_tabs (new_events st (snd (get_token E U st)))))"
proof -
  have "get_token E U st = get_token_legacy E U st"
    using assms by (auto simp: get_token_def andthen_def get_self_def ret_def)
  then show ?thesis using legacy_summary[of E U st] by simp
qed

subsection \<open>The effect of starting the resident channel\<close>

lemma page_load_round_keeps:
  assumes "\<And>s t. f (s\<lparr>resident_tab := t\<rparr>) = f s"
  shows "stays (keeps f) (page_load_round E url)"
  unfolding page_load_round_def
  by (auto intro!: stays_control keeps_calls simp: assms)

lemma page_load_loop_keeps:
  assumes "\<And>s t. f (s\<lparr>resident_tab := t\<rparr>) = f s"
  shows "stays (keeps f) (page_load_loop E url n)"
  by (induction n) (auto intro!: stays_control keeps_calls page_load_round_keeps assms)

lemma resident_open_keeps_running: "stays (keeps running) (resident_open E pid)"
  unfolding resident_open_def
  by (auto intro!: stays_control keeps_calls initialize_keeps)

lemma resident_open_target:
  "resident_project_id (self (snd (resident_open E pid st))) =
     (case fst (initialize E st) of Inl e \<Rightarrow> resident_project_id (self st) | Inr u \<Rightarrow> Some pid)"
proof -
  obtain oi si where ini: "initialize E st = (oi, si)"
    by (cases "initialize E st")
  have k: "resident_project_id (self si) = resident_project_id (self st)"
    using staysD[OF initialize_keeps[of resident_project_id E], of st] ini
    by (simp add: keeps_def)
  show ?thesis
  proof (cases oi)
    case (Inl e)
    then show ?thesis using ini k by (simp add: resident_open_def andthen_def)
  next
    case (Inr u)
    then show ?thesis using ini
      by (cases "browser (self si)")
         (simp_all add: resident_open_def andthen_def set_self_def log_def emit_def get_self_def
           browser_get_def raise_def call_val_def split: sum.splits)
  qed
qed

lemma resident_open_returns:
  "fst (resident_open E pid st) = Inr u \<Longrightarrow> \<exists>u'. fst (initialize E st) = Inr u'"
  by (cases "initialize E st") (auto simp: resident_open_def andthen_def split: sum.splits)

subsection \<open>The polls of the readiness probe\<close>

lemma wait_poll_never_ready:
  assumes "never_ready E t" and "\<forall>n ms. on_sleep E n t ms = None"
  shows "wait_poll E (Some t) n st =
     (Inr False, st\<lparr>trace := trace st
        @ concat (replicate n [Tab_evaluate t Enterprise_check, Tab_sleep t 500])
        @ [Log WARNING 220]\<rparr>)"
proof (induction n arbitrary: st)
  case 0
  show ?case by (simp add: andthen_def log_def emit_def ret_def)
next
  case (Suc n)
  obtain v where v: "on_evaluate E (length (trace st)) t Enterprise_check = Inr v" "\<not> truthy v"
    using assms(1) unfolding never_ready_def by blast
  show ?case
    using v assms(2) Suc.IH
    by (simp add: andthen_def tab_evaluate_def call_val_def tab_sleep_def call_unit_def)
qed

lemma rounds_checks:
  "length (filter is_check (concat (replicate n [Tab_evaluate t Enterprise_check, Tab_sleep t ms]))) = n"
  by (induction n) simp_all

lemma rounds_injections:
  "filter is_injection (concat (replicate n [Tab_evaluate t Enterprise_check, Tab_sleep t ms])) = []"
  by (induction n) simp_all

lemma wait_poll_bounds:
  "\<exists>evs. trace (snd (wait_poll E (Some t) n st)) = trace st @ evs
     \<and> filter is_injection evs = [] \<and> length (filter is_check evs) \<le> n"
proof (induction n arbitrary: st)
  case 0
  show ?case by (simp add: andthen_def log_def emit_def ret_def)
next
  case (Suc n)
  let ?st1 = "st\<lparr>trace := trace st @ [Tab_evaluate t Enterprise_check]\<rparr>"
  let ?st2 = "st\<lparr>trace := trace st @ [Tab_evaluate t Enterprise_check, Tab_sleep t 500]\<rparr>"
  show ?case
  proof (cases "on_evaluate E (length (trace st)) t Enterprise_check")
    case (Inl e)
    then show ?thesis
      by (simp add: andthen_def tab_evaluate_def call_val_def)
  next
    case (Inr v)
    show ?thesis
    proof (cases "truthy v")
      case True
      then show ?thesis using Inr
        by (simp add: andthen_def tab_evaluate_def call_val_def log_def emit_def ret_def)
    next
      case False
      show ?thesis
      proof (cases "on_sleep E (Suc (length (trace st))) t 500")
        case (Some e)
        then show ?thesis using Inr False
          by (simp add: andthen_def tab_evaluate_def call_val_def tab_sleep_def call_unit_def)
      next
        case None
        then have run: "wait_poll E (Some t) (Suc n) st = wait_poll E (Some t) n ?st2"
          using Inr False
          by (simp add: andthen_def tab_evaluate_def call_val_def tab_sleep_def call_unit_def)
        obtain evs where evs: "trace (snd (wait_poll E (Some t) n ?st2)) = trace ?st2 @ evs"
          "filter is_injection evs = []" "length (filter is_check evs) \<le> n"
          using Suc.IH[of ?st2] by blast
        have "trace (snd (wait_poll E (Some t) (Suc n) st))
            = trace st @ ([Tab_evaluate t Enterprise_check, Tab_sleep t 500] @ evs)"
          using run evs(1) by simp
        moreover have "filter is_injection ([Tab_evaluate t Enterprise_check, Tab_sleep t 500] @ evs) = []"
          using evs(2) by simp
        moreover have "length (filter is_check ([Tab_evaluate t Enterprise_check, Tab_sleep t 500] @ evs)) \<le> Suc n"
          using evs(3) by simp
        ultimately show ?thesis by blast
      qed
    qed
  qed
qed

subsection \<open>The values returned\<close>

lemma yieldsD: "yields Q m \<Longrightarrow> fst (m st) = Inr x \<Longrightarrow> Q x"
  by (auto simp: yields_def)

lemma yields_ret: "Q x \<Longrightarrow> yields Q (ret x)"
  by (simp add: yields_def ret_def)

lemma yields_raise: "yields Q (raise e)"
  by (simp add: yields_def raise_def)

lemma yields_andthen:
  assumes "yields P m" "\<And>x. P x \<Longrightarrow> yields Q (k x)"
  shows "yields Q (andthen m k)"
  unfolding yields_def
proof (intro allI impI)
  fix st y assume a: "fst (andthen m k st) = Inr y"
  obtain r st' where m: "m st = (r, st')" by (cases "m st")
  then obtain x where x: "r = Inr x" using a by (cases r) (simp_all add: andthen_def)
  then have "P x" using assms(1) m unfolding yields_def by (metis fst_conv)
  then have "yields Q (k x)" by (rule assms(2))
  moreover have "fst (k x st') = Inr y" using a m x by (simp add: andthen_def)
  ultimately show "Q y" by (rule yieldsD)
qed

lemma yields_any: "yields (\<lambda>x. True) m"
  by (simp add: yields_def)

lemma yields_then: "(\<And>x. yields Q (k x)) \<Longrightarrow> yields Q (andthen m k)"
  by (rule yields_andthen[OF yields_any])

lemma yields_try_except: "yields Q m \<Longrightarrow> (\<And>e. yields Q (h e)) \<Longrightarrow> yields Q (try_except m h)"
  unfolding yields_def try_except_def
  by (auto split: prod.splits sum.splits) (metis fst_conv)+

lemma yields_try_finally: "yields Q m \<Longrightarrow> yields Q (try_finally m f)"
  unfolding yields_def try_finally_def
  by (auto split: prod.splits sum.splits) (metis fst_conv)+

lemma yields_if:
  "(c \<Longrightarrow> yields Q a) \<Longrightarrow> (\<not> c \<Longrightarrow> yields Q b) \<Longrightarrow> yields Q (if c then a else b)"
  by simp

lemma yields_case_sum:
  "(\<And>x. yields Q (a x)) \<Longrightarrow> (\<And>x. yields Q (b x)) \<Longrightarrow>
   yields Q (case v of Inl x \<Rightarrow> a x | Inr x \<Rightarrow> b x)"
  by (cases v) simp_all

lemma yields_case_option:
  "yields Q a \<Longrightarrow> (\<And>x. yields Q (b x)) \<Longrightarrow> yields Q (case v of None \<Rightarrow> a | Some x \<Rightarrow> b x)"
  by (cases v) simp_all

text \<open>The executor returns the initial \<^verbatim>\<open>None\<close> or a value read from the token variable.\<close>

lemma read_token_string:
  "token_reads_are_strings E \<Longrightarrow> yields str_or_none (tab_evaluate E t (Read_token ts))"
  by (cases t)
     (auto simp: yields_def tab_evaluate_def raise_def call_val_def token_reads_are_strings_def)

lemma execute_poll_string:
  assumes "token_reads_are_strings E"
  shows "str_or_none tok \<Longrightarrow> yields str_or_none (execute_poll E t ts n tok)"
proof (induction n arbitrary: tok)
  case 0
  then show ?case by (simp add: yields_ret)
next
  case (Suc n)
  show ?case
    unfolding execute_poll.simps
    by (intro yields_then yields_andthen[OF read_token_string[OF assms]] yields_if yields_ret Suc.IH)
qed

lemma execute_string:
  assumes "token_reads_are_strings E"
  shows "yields str_or_none (execute_recaptcha_on_tab E t)"
  unfolding execute_recaptcha_on_tab_def
  by (intro yields_then yields_andthen[OF execute_poll_string[OF assms]] yields_ret) simp_all

lemma execute_string_if:
  "yields (\<lambda>v. token_reads_are_strings E \<longrightarrow> str_or_none v) (execute_recaptcha_on_tab E t)"
  using execute_string[of E t] by (auto simp: yields_def)

lemma returned_ok_none: "returned_ok E PNone"
  by (simp add: returned_ok_def token_or_none_def)

lemma legacy_rest_returns: "yields (returned_ok E) (legacy_rest E t)"
proof -
  have tail: "yields (returned_ok E)
     (andthen (execute_recaptcha_on_tab E t) (\<lambda>token.
      andthen (time_time E) (\<lambda>_.
        if truthy token then
          andthen (log INFO 361) (\<lambda>_.
          ret token)
        else
          andthen (log ERROR 364) (\<lambda>_.
          ret PNone))))"
  proof (rule yields_andthen[OF execute_string_if])
    fix x assume "token_reads_are_strings E \<longrightarrow> str_or_none x"
    then show "yields (returned_ok E)
      (andthen (time_time E) (\<lambda>_.
        if truthy x then andthen (log INFO 361) (\<lambda>_. ret x)
        else andthen (log ERROR 364) (\<lambda>_. ret PNone)))"
      by (intro yields_then yields_if yields_ret)
         (simp_all add: returned_ok_def token_or_none_def)
  qed
  show ?thesis
    unfolding legacy_rest_def
    apply (rule yields_then)
    apply (rule yields_then)
    apply (rule yields_then)
    apply (rule yields_then)
    apply (rule yields_if)
     apply (intro yields_then yields_ret returned_ok_none)
    apply (rule yields_then)
    apply (rule tail)
    done
qed

lemma get_token_legacy_returns: "yields (returned_ok E) (get_token_legacy E pid)"
  unfolding get_token_legacy_def legacy_except_def
  by (intro yields_then yields_case_sum yields_try_finally yields_try_except legacy_rest_returns
      yields_ret returned_ok_none)

lemma get_token_returns: "yields (returned_ok E) (get_token E pid)"
proof -
  let ?P = "\<lambda>r. case r of None \<Rightarrow> True | Some v \<Rightarrow> returned_ok E v"
  have exec: "yields ?P
     (andthen (execute_recaptcha_on_tab E t) (\<lambda>token.
      andthen (time_time E) (\<lambda>_.
        if truthy token then
          andthen (log INFO 303) (\<lambda>_.
          ret (Some token))
        else
          andthen (log WARNING 306) (\<lambda>_.
          ret None))))" for t
  proof (rule yields_andthen[OF execute_string_if])
    fix x assume "token_reads_are_strings E \<longrightarrow> str_or_none x"
    then show "yields ?P
      (andthen (time_time E) (\<lambda>_.
        if truthy x then andthen (log INFO 303) (\<lambda>_. ret (Some x))
        else andthen (log WARNING 306) (\<lambda>_. ret None)))"
      by (intro yields_then yields_if yields_ret)
         (simp_all add: returned_ok_def token_or_none_def)
  qed
  have fallback: "yields (returned_ok E)
      (case r of Some token \<Rightarrow> ret token | None \<Rightarrow> get_token_legacy E pid)" if "?P r" for r
    using that by (cases r) (simp_all add: yields_ret get_token_legacy_returns)
  show ?thesis
    unfolding get_token_def
    apply (rule yields_then)
    apply (rule yields_andthen[where P = ?P])
     apply (rule yields_if)
      apply (rule yields_if)
       apply (rule yields_then)
       apply (rule yields_then)
       apply (rule exec)
      apply (rule yields_then)
      apply (rule yields_ret)
      apply simp
     apply (rule yields_ret)
     apply simp
    apply (rule fallback)
    apply assumption
    done
qed

section \<open>The claims\<close>

text \<open>
  Claim C1. For every target identifier, environment and state: when \<^verbatim>\<open>get_token\<close>
  returns, on the resident path or on the legacy path (and so too when
  \<^verbatim>\<open>_get_token_legacy\<close> returns), it returns \<^verbatim>\<open>None\<close> or a true
  value, so never the empty string; and when the token variable of the page only ever
  holds a string or null, as the executor's script leaves it, the value returned is
  \<^verbatim>\<open>None\<close> or a non-empty string. (The method can also raise, when the browser
  cannot be started or the resident tab fails; it returns nothing then.)
\<close>

theorem get_token_never_empty:
  fixes E pid st v
  defines "good \<equiv> v \<noteq> PStr []
    \<and> (v = PNone \<or> truthy v)
    \<and> (token_reads_are_strings E \<longrightarrow> v = PNone \<or> (\<exists>tok. tok \<noteq> [] \<and> v = PStr tok))"
  shows "(fst (get_token E pid st) = Inr v \<longrightarrow> good)
    \<and> (fst (get_token_legacy E pid st) = Inr v \<longrightarrow> good)"
proof -
  have good: good if ok: "returned_ok E v"
  proof -
    have a: "v = PNone \<or> truthy v"
      using ok by (simp add: returned_ok_def token_or_none_def)
    then have b: "v \<noteq> PStr []" by auto
    have c: "v = PNone \<or> (\<exists>tok. tok \<noteq> [] \<and> v = PStr tok)" if "token_reads_are_strings E"
      using ok that a by (cases v) (auto simp: returned_ok_def)
    show ?thesis unfolding good_def using a b c by blast
  qed
  show ?thesis
    using yieldsD[OF get_token_returns, of E pid st v]
      yieldsD[OF get_token_legacy_returns, of E pid st v] good
    by blast
qed

theorem get_token_never_empty_witness:
  "fst (get_token E_ok ''p'' st_resident) = Inr (PStr ''tok'')
   \<and> fst (get_token_legacy E_ok ''q'' st_fresh) = Inr (PStr ''tok'')
   \<and> token_reads_are_strings E_ok
   \<and> PStr ''tok'' \<noteq> PStr [] \<and> truthy (PStr ''tok'')
   \<and> fst (get_token E_null ''q'' st_resident) = Inr PNone"
proof -
  have a: "fst (get_token E_ok ''p'' st_resident) = Inr (PStr ''tok'')"
    by (simp add: run_simps example_defs)
  have b: "fst (get_token_legacy E_ok ''q'' st_fresh) = Inr (PStr ''tok'')"
    by (simp add: run_simps example_defs)
  have c: "fst (get_token E_null ''q'' st_resident) = Inr PNone"
    by (simp add: run_simps example_defs)
  have d: "token_reads_are_strings E_ok"
    by (simp add: token_reads_are_strings_def E_ok_def)
  show ?thesis
    using get_token_never_empty [where E = E_ok and pid = "''p''" and st = st_resident
        and v = "PStr ''tok''"] a b c d
    by simp
qed

text \<open>
  Claim C2. When the channel is running, bound to \<open>T\<close>, marked ready with a tab \<open>t\<close>, and
  the executor on \<open>t\<close> returns a token (a true value), \<^verbatim>\<open>get_token(T)\<close> returns that
  token, the legacy acquirer is not called, and nothing happens after the executor but a
  clock read and the log of line 303.
\<close>

theorem get_token_resident_hit:
  fixes E T st t
  defines "pre \<equiv> st\<lparr>trace := trace st @ [Time_time, Log INFO 299]\<rparr>"
  assumes "running (self st)" and "resident_project_id (self st) = Some T"
    and "recaptcha_ready (self st)" and "resident_tab (self st) = Some t"
    and "fst (execute_recaptcha_on_tab E (Some t) pre) = Inr tok" and "truthy tok"
  shows "fst (get_token E T st) = Inr tok
    \<and> legacy_calls (new_events st (snd (get_token E T st))) = 0
    \<and> snd (get_token E T st) =
        (snd (execute_recaptcha_on_tab E (Some t) pre))\<lparr>trace :=
          trace (snd (execute_recaptcha_on_tab E (Some t) pre)) @ [Time_time, Log INFO 303]\<rparr>"
proof -
  obtain st' where ex: "execute_recaptcha_on_tab E (Some t) pre = (Inr tok, st')"
    using assms(6) by (cases "execute_recaptcha_on_tab E (Some t) pre") simp
  have run: "get_token E T st = (Inr tok, st'\<lparr>trace := trace st' @ [Time_time, Log INFO 303]\<rparr>)"
    using assms(2-5,7) ex
    by (simp add: get_token_def andthen_def get_self_def ret_def time_time_def call_val_def
        log_def emit_def pre_def)
  obtain pg where pg: "trace st' = trace pre @ pg" "list_all (page_event (Some t)) pg"
    using staysD[OF execute_page[of "Some t" E], of pre] ex unfolding extends_iff by auto
  have "new_events st (snd (get_token E T st)) = [Time_time, Log INFO 299] @ pg @ [Time_time, Log INFO 303]"
    using run pg(1) by (simp add: new_events_def pre_def)
  then have "legacy_calls (new_events st (snd (get_token E T st))) = 0"
    using page_events_quiet[OF pg(2), THEN quiet_calls]
    by (simp add: legacy_calls_def)
  then show ?thesis using run ex by simp
qed

theorem get_token_resident_hit_witness:
  "running (self st_resident) \<and> resident_project_id (self st_resident) = Some ''p''
   \<and> recaptcha_ready (self st_resident) \<and> resident_tab (self st_resident) = Some 7
   \<and> fst (execute_recaptcha_on_tab E_ok (Some 7)
        (st_resident\<lparr>trace := trace st_resident @ [Time_time, Log INFO 299]\<rparr>)) = Inr (PStr ''tok'')
   \<and> truthy (PStr ''tok'')
   \<and> fst (get_token E_ok ''p'' st_resident) = Inr (PStr ''tok'')
   \<and> legacy_calls (new_events st_resident (snd (get_token E_ok ''p'' st_resident))) = 0"
proof -
  have a: "running (self st_resident)" "resident_project_id (self st_resident) = Some ''p''"
    "recaptcha_ready (self st_resident)" "resident_tab (self st_resident) = Some 7"
    by (simp_all add: st_resident_def)
  have b: "fst (execute_recaptcha_on_tab E_ok (Some 7)
        (st_resident\<lparr>trace := trace st_resident @ [Time_time, Log INFO 299]\<rparr>)) = Inr (PStr ''tok'')"
    by (simp add: run_simps example_defs)
  have c: "truthy (PStr ''tok'')" by simp
  show ?thesis
    using get_token_resident_hit [OF a b c] a b c by blast
qed

text \<open>
  Claim C3. When the channel is running, bound to \<open>T\<close>, marked ready with a tab \<open>t\<close>, and
  the executor on \<open>t\<close> returns \<^verbatim>\<open>None\<close> (or any false value), \<^verbatim>\<open>get_token(T)\<close> is
  the legacy acquirer run from the state the executor left, after a clock read and the
  warning of line 306: it returns the legacy result, and the legacy acquirer is called
  exactly once.
\<close>

theorem get_token_resident_miss:
  fixes E T st t
  defines "pre \<equiv> st\<lparr>trace := trace st @ [Time_time, Log INFO 299]\<rparr>"
  assumes "running (self st)" and "resident_project_id (self st) = Some T"
    and "recaptcha_ready (self st)" and "resident_tab (self st) = Some t"
    and "fst (execute_recaptcha_on_tab E (Some t) pre) = Inr v" and "\<not> truthy v"
  shows "get_token E T st =
      get_token_legacy E T ((snd (execute_recaptcha_on_tab E (Some t) pre))\<lparr>trace :=
          trace (snd (execute_recaptcha_on_tab E (Some t) pre)) @ [Time_time, Log WARNING 306]\<rparr>)
    \<and> legacy_calls (new_events st (snd (get_token E T st))) = 1"
proof -
  obtain st' where ex: "execute_recaptcha_on_tab E (Some t) pre = (Inr v, st')"
    using assms(6) by (cases "execute_recaptcha_on_tab E (Some t) pre") simp
  let ?st2 = "st'\<lparr>trace := trace st' @ [Time_time, Log WARNING 306]\<rparr>"
  have run: "get_token E T st = get_token_legacy E T ?st2"
    using assms(2-5,7) ex
    by (simp add: get_token_def andthen_def get_self_def ret_def time_time_def call_val_def
        log_def emit_def pre_def)
  obtain pg where pg: "trace st' = trace pre @ pg" "list_all (page_event (Some t)) pg"
    using staysD[OF execute_page[of "Some t" E], of pre] ex unfolding extends_iff by auto
  let ?new2 = "new_events ?st2 (snd (get_token_legacy E T ?st2))"
  have leg: "trace (snd (get_token_legacy E T ?st2)) = trace ?st2 @ ?new2" "legacy_calls ?new2 = 1"
    using legacy_summary[of E T ?st2] by simp_all
  have "new_events st (snd (get_token E T st))
      = [Time_time, Log INFO 299] @ pg @ [Time_time, Log WARNING 306] @ ?new2"
    unfolding run new_events_def[of st] leg(1) using pg(1) by (simp add: pre_def)
  then have "legacy_calls (new_events st (snd (get_token E T st))) = 1"
    using page_events_quiet[OF pg(2), THEN quiet_calls] leg(2)
    by (simp add: legacy_calls_def)
  then show ?thesis using run ex by simp
qed

theorem get_token_resident_miss_witness:
  "running (self st_resident) \<and> resident_project_id (self st_resident) = Some ''p''
   \<and> recaptcha_ready (self st_resident) \<and> resident_tab (self st_resident) = Some 7
   \<and> fst (execute_recaptcha_on_tab E_null (Some 7)
        (st_resident\<lparr>trace := trace st_resident @ [Time_time, Log INFO 299]\<rparr>)) = Inr PNone
   \<and> \<not> truthy PNone
   \<and> get_token E_null ''p'' st_resident =
      get_token_legacy E_null ''p''
        ((snd (execute_recaptcha_on_tab E_null (Some 7)
            (st_resident\<lparr>trace := trace st_resident @ [Time_time, Log INFO 299]\<rparr>)))\<lparr>trace :=
          trace (snd (execute_recaptcha_on_tab E_null (Some 7)
            (st_resident\<lparr>trace := trace st_resident @ [Time_time, Log INFO 299]\<rparr>)))
          @ [Time_time, Log WARNING 306]\<rparr>)
   \<and> legacy_calls (new_events st_resident (snd (get_token E_null ''p'' st_resident))) = 1"
proof -
  have a: "running (self st_resident)" "resident_project_id (self st_resident) = Some ''p''"
    "recaptcha_ready (self st_resident)" "resident_tab (self st_resident) = Some 7"
    by (simp_all add: st_resident_def)
  have b: "fst (execute_recaptcha_on_tab E_null (Some 7)
        (st_resident\<lparr>trace := trace st_resident @ [Time_time, Log INFO 299]\<rparr>)) = Inr PNone"
    by (simp add: run_simps example_defs)
  have c: "\<not> truthy PNone" by simp
  show ?thesis
    using get_token_resident_miss [OF a b c] a b c by blast
qed

text \<open>
  Claim C4. The first half holds: for a target other than the bound one, or when the
  channel is not running, \<^verbatim>\<open>get_token\<close> goes straight to the legacy acquirer.
  The second half, that nothing is then executed on the resident tab, the code does not
  keep. The legacy acquirer is documented as opening a new tab for each request (class
  docstring, line 21; docstring, line 314; comment, line 333), and
  \<^verbatim>\<open>start_resident_mode\<close> opens its tab with \<^verbatim>\<open>new_tab=True\<close> so that it is not
  the one that gets recycled (lines 114 and 115); but line 334 calls
  \<^verbatim>\<open>browser.get(website_url)\<close> without \<^verbatim>\<open>new_tab=True\<close>, so the browser
  answers a tab that is already open. When that tab is the resident one (tab 7 below, with
  the channel running for \<open>''p''\<close>), \<^verbatim>\<open>get_token\<close> for the other target \<open>''q''\<close>
  navigates the resident tab to the page of \<open>''q''\<close>, runs the readiness check and the
  challenge on it and closes it, while the service still holds it as its resident tab
  and still counts as running.
\<close>

theorem get_token_other_target_on_resident_tab:
  "running (self st_resident)
   \<and> resident_project_id (self st_resident) = Some ''p''
   \<and> resident_tab (self st_resident) = Some 7
   \<and> fst (get_token E_reuse ''q'' st_resident) = Inr (PStr ''tok'')
   \<and> legacy_calls (new_events st_resident (snd (get_token E_reuse ''q'' st_resident))) = 1
   \<and> Browser_get 1 (website_url ''q'') False (Inr 7)
       \<in> set (new_events st_resident (snd (get_token E_reuse ''q'' st_resident)))
   \<and> Tab_evaluate 7 Enterprise_check
       \<in> set (new_events st_resident (snd (get_token E_reuse ''q'' st_resident)))
   \<and> Tab_evaluate 7 (Execute_script (website_key (self st_resident)) 1000)
       \<in> set (new_events st_resident (snd (get_token E_reuse ''q'' st_resident)))
   \<and> last (new_events st_resident (snd (get_token E_reuse ''q'' st_resident))) = Tab_close 7
   \<and> resident_tab (self (snd (get_token E_reuse ''q'' st_resident))) = Some 7
   \<and> running (self (snd (get_token E_reuse ''q'' st_resident)))"
  by (simp add: run_simps example_defs legacy_calls_def)

text \<open>
  Claim C5 as stated fails: the target identifier is stored at line 109, before the page
  is opened. On a browser whose pages never finish loading, a start from a fresh service
  returns normally after the error of line 143 with \<^verbatim>\<open>_running\<close> still false, but
  \<^verbatim>\<open>resident_project_id\<close> has changed from \<^verbatim>\<open>None\<close> to the requested
  identifier. The same happens when the probe fails (error of line 150).
\<close>

theorem start_resident_mode_target_counterexample:
  "resident_project_id (self st_fresh) = None
   \<and> fst (start_resident_mode E_stuck ''p'' st_fresh) = Inr ()
   \<and> last (trace (snd (start_resident_mode E_stuck ''p'' st_fresh))) = Log ERROR 143
   \<and> \<not> running (self (snd (start_resident_mode E_stuck ''p'' st_fresh)))
   \<and> resident_project_id (self (snd (start_resident_mode E_stuck ''p'' st_fresh))) = Some ''p''
   \<and> last (trace (snd (start_resident_mode E_unready ''p'' st_fresh))) = Log ERROR 150
   \<and> \<not> running (self (snd (start_resident_mode E_unready ''p'' st_fresh)))
   \<and> resident_project_id (self (snd (start_resident_mode E_unready ''p'' st_fresh))) = Some ''p''"
  by (simp add: run_simps example_defs)

text \<open>
  Claim C5, as amended. Started while not running, \<^verbatim>\<open>start_resident_mode\<close> leaves
  \<^verbatim>\<open>_running\<close> true exactly when lines 107 to 117 returned, the page-load wait then
  returned \<^verbatim>\<open>True\<close> and the readiness probe then returned \<^verbatim>\<open>True\<close>; in every
  other case \<^verbatim>\<open>_running\<close> stays false. When it is true the stored target is the
  requested one and the channel is marked ready. The target identifier itself is stored
  as soon as \<^verbatim>\<open>initialize\<close> has returned, whatever happens afterwards; it keeps its
  old value only when \<^verbatim>\<open>initialize\<close> raises.
\<close>

theorem start_resident_mode_sets_running:
  fixes E pid st
  defines "st' \<equiv> snd (start_resident_mode E pid st)"
  assumes "\<not> running (self st)"
  shows "(running (self st') \<longleftrightarrow>
        (\<exists>st1 st2 st3. resident_open E pid st = (Inr (), st1)
          \<and> page_load_loop E (website_url pid) 15 st1 = (Inr True, st2)
          \<and> wait_for_recaptcha E (resident_tab (self st2)) st2 = (Inr True, st3)))
    \<and> (running (self st') \<longrightarrow>
          resident_project_id (self st') = Some pid \<and> recaptcha_ready (self st'))
    \<and> ((\<exists>u. fst (initialize E st) = Inr u) \<longrightarrow> resident_project_id (self st') = Some pid)
    \<and> ((\<exists>e. fst (initialize E st) = Inl e) \<longrightarrow>
          resident_project_id (self st') = resident_project_id (self st))"
proof -
  obtain o1 st1 where op: "resident_open E pid st = (o1, st1)"
    by (cases "resident_open E pid st")
  have r1: "running (self st1) = running (self st)"
    using staysD[OF resident_open_keeps_running[of E pid], of st] op by (simp add: keeps_def)
  have t1: "resident_project_id (self st1) =
      (case fst (initialize E st) of Inl e \<Rightarrow> resident_project_id (self st) | Inr u \<Rightarrow> Some pid)"
    using resident_open_target[of E pid st] op by simp
  have i1: "o1 = Inr () \<Longrightarrow> \<exists>u. fst (initialize E st) = Inr u"
    using resident_open_returns[of E pid st "()"] op by simp
  obtain o2 st2 where pl: "page_load_loop E (website_url pid) 15 st1 = (o2, st2)"
    by (cases "page_load_loop E (website_url pid) 15 st1")
  have r2: "running (self st2) = running (self st1)"
    using staysD[OF page_load_loop_keeps[of running E "website_url pid" 15], of st1] pl
    by (simp add: keeps_def)
  have t2: "resident_project_id (self st2) = resident_project_id (self st1)"
    using staysD[OF page_load_loop_keeps[of resident_project_id E "website_url pid" 15], of st1] pl
    by (simp add: keeps_def)
  obtain o3 st3 where wr: "wait_for_recaptcha E (resident_tab (self st2)) st2 = (o3, st3)"
    by (cases "wait_for_recaptcha E (resident_tab (self st2)) st2")
  have r3: "running (self st3) = running (self st2)"
    using staysD[OF wait_for_recaptcha_keeps[of running E "resident_tab (self st2)"], of st2] wr
    by (simp add: keeps_def)
  have t3: "resident_project_id (self st3) = resident_project_id (self st2)"
    using staysD[OF wait_for_recaptcha_keeps[of resident_project_id E "resident_tab (self st2)"], of st2] wr
    by (simp add: keeps_def)
  have run: "start_resident_mode E pid st =
     (case o1 of
        Inl e \<Rightarrow> (Inl e, st1)
      | Inr u \<Rightarrow>
         (case o2 of
            Inl e \<Rightarrow> (Inl e, st2)
          | Inr page_loaded \<Rightarrow>
              if \<not> page_loaded then (Inr (), st2\<lparr>trace := trace st2 @ [Log ERROR 143]\<rparr>)
              else
                (case o3 of
                   Inl e \<Rightarrow> (Inl e, st3)
                 | Inr ready \<Rightarrow>
                     if \<not> ready then
                       (Inr (), st3\<lparr>self := (self st3)\<lparr>recaptcha_ready := False\<rparr>,
                          trace := trace st3 @ [Log ERROR 150]\<rparr>)
                     else
                       (Inr (), st3\<lparr>self := (self st3)\<lparr>recaptcha_ready := True, running := True\<rparr>,
                          trace := trace st3 @ [Log INFO 154]\<rparr>))))"
    using assms(2) op pl wr
    by (simp add: start_resident_mode_def andthen_def get_self_def log_def emit_def set_self_def
        split: sum.splits)
  show ?thesis
    unfolding st'_def run using assms(2) op pl wr r1 r2 r3 t1 t2 t3 i1
    by (auto split: sum.splits)
qed

theorem start_resident_mode_sets_running_witness:
  "\<not> running (self st_fresh)
   \<and> running (self (snd (start_resident_mode E_ok ''p'' st_fresh)))
   \<and> resident_project_id (self (snd (start_resident_mode E_ok ''p'' st_fresh))) = Some ''p''
   \<and> recaptcha_ready (self (snd (start_resident_mode E_ok ''p'' st_fresh)))
   \<and> fst (initialize E_nolaunch st_fresh) = Inl (OtherException ''launch failed'')
   \<and> resident_project_id (self (snd (start_resident_mode E_nolaunch ''p'' st_fresh)))
       = resident_project_id (self st_fresh)"
proof -
  have a: "\<not> running (self st_fresh)"
    by (simp add: st_fresh_def init_def)
  have b: "running (self (snd (start_resident_mode E_ok ''p'' st_fresh)))"
    by (simp add: run_simps example_defs)
  have c: "fst (initialize E_nolaunch st_fresh) = Inl (OtherException ''launch failed'')"
    by (simp add: run_simps example_defs)
  show ?thesis
    using start_resident_mode_sets_running [OF a, of E_ok "''p''"]
      start_resident_mode_sets_running [OF a, of E_nolaunch "''p''"] a b c
    by blast
qed

text \<open>
  Claim C6. In every run of the legacy acquirer, the tabs closed are exactly the tabs
  that \<^verbatim>\<open>browser.get\<close> returned (none or one): the tab is closed on success and
  when the wait, the probe or the executor raises. Whenever the handler of the
  \<^verbatim>\<open>try\<close> has run (it logs at line 368) the result is \<^verbatim>\<open>None\<close>. The browser is
  never stopped. An exception leaves the method only when \<^verbatim>\<open>initialize\<close>, which runs
  before the \<^verbatim>\<open>try\<close>, raised it; no tab is open then. And for the \<^verbatim>\<open>try\<close>
  statement itself, with a tab \<open>t\<close> opened: when lines 337 to 365 raise, from whatever
  state, the statement yields \<^verbatim>\<open>None\<close> and ends by closing \<open>t\<close>.
\<close>

theorem get_token_legacy_cleanup:
  fixes E pid st
  defines "out \<equiv> get_token_legacy E pid st"
  defines "new \<equiv> new_events st (snd out)"
  shows "closed_tabs new = opened_tabs new
    \<and> length (opened_tabs new) \<le> 1
    \<and> list_all (\<lambda>ev. \<not> is_browser_stop ev) new
    \<and> (Log ERROR 368 \<in> set new \<longrightarrow> fst out = Inr PNone)
    \<and> (\<forall>e. fst out = Inl e \<longrightarrow> opened_tabs new = []
          \<and> (\<not> initialized (self st) \<or> browser (self st) = None)
          \<and> fst (initialize E (st\<lparr>trace := trace st @ [Call_get_token_legacy pid]\<rparr>)) = Inl e)
    \<and> (\<forall>t s e. fst (legacy_rest E (Some t) s) = Inl e \<longrightarrow>
          fst (try_finally (try_except (legacy_rest E (Some t)) legacy_except)
                 (legacy_finally E (Some t)) s) = Inr PNone
          \<and> last (trace (snd (try_finally (try_except (legacy_rest E (Some t)) legacy_except)
                 (legacy_finally E (Some t)) s))) = Tab_close t)"
proof -
  have caught: "fst (try_finally (try_except (legacy_rest E (Some t)) legacy_except)
                 (legacy_finally E (Some t)) s) = Inr PNone
          \<and> last (trace (snd (try_finally (try_except (legacy_rest E (Some t)) legacy_except)
                 (legacy_finally E (Some t)) s))) = Tab_close t"
    if "fst (legacy_rest E (Some t) s) = Inl e" for t s e
    using that
    by (cases "legacy_rest E (Some t) s")
       (simp add: try_finally_def try_except_def legacy_except_def legacy_finally_def andthen_def
         log_def emit_def ret_def tab_close_def call_unit_def split: option.splits)
  show ?thesis
    unfolding out_def new_def using legacy_summary[of E pid st] caught by simp
qed

theorem get_token_legacy_cleanup_witness:
  "Log ERROR 368 \<in> set (new_events st_fresh (snd (get_token_legacy E_broken ''q'' st_fresh)))
   \<and> fst (get_token_legacy E_broken ''q'' st_fresh) = Inr PNone
   \<and> opened_tabs (new_events st_fresh (snd (get_token_legacy E_broken ''q'' st_fresh))) = [8]
   \<and> closed_tabs (new_events st_fresh (snd (get_token_legacy E_broken ''q'' st_fresh))) = [8]
   \<and> fst (get_token_legacy E_nolaunch ''q'' st_fresh) = Inl (OtherException ''launch failed'')
   \<and> opened_tabs (new_events st_fresh (snd (get_token_legacy E_nolaunch ''q'' st_fresh))) = []
   \<and> fst (legacy_rest E_broken (Some 8) st_fresh) = Inl (OtherException ''page crashed'')
   \<and> fst (try_finally (try_except (legacy_rest E_broken (Some 8)) legacy_except)
          (legacy_finally E_broken (Some 8)) st_fresh) = Inr PNone"
proof -
  have a: "Log ERROR 368 \<in> set (new_events st_fresh (snd (get_token_legacy E_broken ''q'' st_fresh)))"
    by (simp add: run_simps example_defs)
  have b: "opened_tabs (new_events st_fresh (snd (get_token_legacy E_broken ''q'' st_fresh))) = [8]"
    by (simp add: run_simps example_defs)
  have c: "fst (get_token_legacy E_nolaunch ''q'' st_fresh) = Inl (OtherException ''launch failed'')"
    by (simp add: run_simps example_defs)
  have d: "fst (legacy_rest E_broken (Some 8) st_fresh) = Inl (OtherException ''page crashed'')"
    by (simp add: run_simps example_defs)
  show ?thesis
    using get_token_legacy_cleanup [where E = E_broken and pid = "''q''" and st = st_fresh]
      get_token_legacy_cleanup [where E = E_nolaunch and pid = "''q''" and st = st_fresh] a b c d
    by simp
qed

text \<open>
  Claim C7. The readiness probe on a tab \<open>t\<close>. When the first readiness check (the call
  after the log of line 182) answers a true value, the probe returns \<^verbatim>\<open>True\<close> and
  injects nothing. On a page whose readiness check never answers a true value (and whose
  injection and sleeps return), the probe injects exactly once, then polls exactly 20
  times, and returns \<^verbatim>\<open>False\<close>. On every page there is at most one injection and
  there are at most 20 polls after it.
\<close>

theorem wait_for_recaptcha_probe:
  fixes E t st
  defines "out \<equiv> wait_for_recaptcha E (Some t) st"
  defines "new \<equiv> new_events st (snd out)"
  shows "((\<exists>v. on_evaluate E (Suc (length (trace st))) t Enterprise_check = Inr v \<and> truthy v)
          \<longrightarrow> fst out = Inr True \<and> injections new = 0)
    \<and> (never_ready E t \<and> page_responds E t
          \<longrightarrow> fst out = Inr False \<and> injections new = 1 \<and> polls new = 20)
    \<and> injections new \<le> 1 \<and> polls new \<le> 20"
proof -
  have first: "fst out = Inr True \<and> injections new = 0"
    if "\<exists>v. on_evaluate E (Suc (length (trace st))) t Enterprise_check = Inr v \<and> truthy v"
  proof -
  from that obtain v where v: "on_evaluate E (Suc (length (trace st))) t Enterprise_check = Inr v" "truthy v"
    by blast
  have "out = (Inr True, st\<lparr>trace := trace st @
      [Log INFO 182, Tab_evaluate t Enterprise_check, Log INFO 190]\<rparr>)"
    using v
    by (simp add: out_def wait_for_recaptcha_def andthen_def log_def emit_def tab_evaluate_def
        call_val_def ret_def)
  then show ?thesis
    by (simp add: new_def new_events_def injections_def)
  qed
  have never: "fst out = Inr False \<and> injections new = 1 \<and> polls new = 20"
    if a: "never_ready E t \<and> page_responds E t"
  proof -
  from a obtain v where v: "on_evaluate E (Suc (length (trace st))) t Enterprise_check = Inr v" "\<not> truthy v"
    unfolding never_ready_def by blast
  from a obtain w where w: "on_evaluate E (Suc (Suc (Suc (length (trace st))))) t
      (Inject_script (website_key (self st))) = Inr w"
    unfolding page_responds_def by blast
  from a have sl: "\<forall>n ms. on_sleep E n t ms = None"
    unfolding page_responds_def by blast
  let ?st5 = "st\<lparr>trace := trace st @ [Log INFO 182, Tab_evaluate t Enterprise_check, Log INFO 194,
      Tab_evaluate t (Inject_script (website_key (self st))), Tab_sleep t 3000]\<rparr>"
  have "out = wait_poll E (Some t) 20 ?st5"
    using v w sl
    by (simp add: out_def wait_for_recaptcha_def andthen_def log_def emit_def tab_evaluate_def
        call_val_def get_self_def tab_sleep_def call_unit_def)
  then have o: "out = (Inr False, ?st5\<lparr>trace := trace ?st5
        @ concat (replicate 20 [Tab_evaluate t Enterprise_check, Tab_sleep t 500])
        @ [Log WARNING 220]\<rparr>)"
    using wait_poll_never_ready[OF conjunct1[OF a] sl, of 20 ?st5] by simp
  have n: "new = [Log INFO 182, Tab_evaluate t Enterprise_check, Log INFO 194,
      Tab_evaluate t (Inject_script (website_key (self st))), Tab_sleep t 3000]
      @ concat (replicate 20 [Tab_evaluate t Enterprise_check, Tab_sleep t 500])
      @ [Log WARNING 220]"
    unfolding new_def o by (simp add: new_events_def)
  show ?thesis
    unfolding n using o
    by (simp add: injections_def polls_def rounds_checks rounds_injections)
  qed
  have bounds: "injections new \<le> 1 \<and> polls new \<le> 20"
  proof (cases "on_evaluate E (Suc (length (trace st))) t Enterprise_check")
    case (Inl e)
    then have "out = (Inl e, st\<lparr>trace := trace st @
        [Log INFO 182, Tab_evaluate t Enterprise_check]\<rparr>)"
      by (simp add: out_def wait_for_recaptcha_def andthen_def log_def emit_def tab_evaluate_def
          call_val_def)
    then show ?thesis
      by (simp add: new_def new_events_def injections_def polls_def)
  next
    case (Inr v)
    show ?thesis
    proof (cases "truthy v")
      case True
      then have "out = (Inr True, st\<lparr>trace := trace st @
          [Log INFO 182, Tab_evaluate t Enterprise_check, Log INFO 190]\<rparr>)"
        using Inr
        by (simp add: out_def wait_for_recaptcha_def andthen_def log_def emit_def tab_evaluate_def
            call_val_def ret_def)
      then show ?thesis
        by (simp add: new_def new_events_def injections_def polls_def)
    next
      case False
      let ?inject = "Tab_evaluate t (Inject_script (website_key (self st)))"
      show ?thesis
      proof (cases "on_evaluate E (Suc (Suc (Suc (length (trace st))))) t
          (Inject_script (website_key (self st)))")
        case (Inl e)
        then have "out = (Inl e, st\<lparr>trace := trace st @
            [Log INFO 182, Tab_evaluate t Enterprise_check, Log INFO 194, ?inject]\<rparr>)"
          using Inr False
          by (simp add: out_def wait_for_recaptcha_def andthen_def log_def emit_def
              tab_evaluate_def call_val_def get_self_def)
        then show ?thesis
          by (simp add: new_def new_events_def injections_def polls_def)
      next
        case w: (Inr w)
        let ?st5 = "st\<lparr>trace := trace st @ [Log INFO 182, Tab_evaluate t Enterprise_check,
            Log INFO 194, ?inject, Tab_sleep t 3000]\<rparr>"
        show ?thesis
        proof (cases "on_sleep E (Suc (Suc (Suc (Suc (length (trace st)))))) t 3000")
          case (Some e)
          then have "out = (Inl e, ?st5)"
            using Inr False w
            by (simp add: out_def wait_for_recaptcha_def andthen_def log_def emit_def
                tab_evaluate_def call_val_def get_self_def tab_sleep_def call_unit_def)
          then show ?thesis
            by (simp add: new_def new_events_def injections_def polls_def)
        next
          case None
          then have o: "out = wait_poll E (Some t) 20 ?st5"
            using Inr False w
            by (simp add: out_def wait_for_recaptcha_def andthen_def log_def emit_def
                tab_evaluate_def call_val_def get_self_def tab_sleep_def call_unit_def)
          obtain evs where evs: "trace (snd (wait_poll E (Some t) 20 ?st5)) = trace ?st5 @ evs"
            "filter is_injection evs = []" "length (filter is_check evs) \<le> 20"
            using wait_poll_bounds[of E t 20 ?st5] by blast
          have "new = [Log INFO 182, Tab_evaluate t Enterprise_check, Log INFO 194, ?inject,
              Tab_sleep t 3000] @ evs"
            unfolding new_def o using evs(1) by (simp add: new_events_def)
          then show ?thesis
            using evs(2,3) by (simp add: injections_def polls_def)
        qed
      qed
    qed
  qed
  show ?thesis using first never bounds by blast
qed

theorem wait_for_recaptcha_probe_witness:
  "on_evaluate E_ok (Suc (length (trace st_fresh))) 7 Enterprise_check = Inr (PBool True)
   \<and> truthy (PBool True)
   \<and> fst (wait_for_recaptcha E_ok (Some 7) st_fresh) = Inr True
   \<and> injections (new_events st_fresh (snd (wait_for_recaptcha E_ok (Some 7) st_fresh))) = 0
   \<and> never_ready E_unready 7 \<and> page_responds E_unready 7
   \<and> fst (wait_for_recaptcha E_unready (Some 7) st_fresh) = Inr False
   \<and> injections (new_events st_fresh (snd (wait_for_recaptcha E_unready (Some 7) st_fresh))) = 1
   \<and> polls (new_events st_fresh (snd (wait_for_recaptcha E_unready (Some 7) st_fresh))) = 20"
proof -
  have a: "on_evaluate E_ok (Suc (length (trace st_fresh))) 7 Enterprise_check = Inr (PBool True)"
    "truthy (PBool True)"
    by (simp_all add: E_ok_def)
  have b: "never_ready E_unready 7" "page_responds E_unready 7"
    by (simp_all add: never_ready_def page_responds_def E_unready_def E_ok_def)
  show ?thesis
    using wait_for_recaptcha_probe [where E = E_ok and t = 7 and st = st_fresh]
      wait_for_recaptcha_probe [where E = E_unready and t = 7 and st = st_fresh] a b
    by blast
qed

text \<open>
  Claim C8, as amended. When resident mode is running (as it is after a start that
  succeeded and no stop since), \<^verbatim>\<open>start_resident_mode\<close> is a no-op: it returns
  at once, the object is unchanged, and the only event is the warning of line 104; so it
  starts no browser and opens no page.
\<close>

theorem start_resident_mode_when_running:
  assumes "running (self st)"
  shows "start_resident_mode E pid st = (Inr (), st\<lparr>trace := trace st @ [Log WARNING 104]\<rparr>)
    \<and> new_events st (snd (start_resident_mode E pid st)) = [Log WARNING 104]
    \<and> self (snd (start_resident_mode E pid st)) = self st"
  using assms
  by (simp add: start_resident_mode_def andthen_def get_self_def log_def emit_def new_events_def)

theorem start_resident_mode_when_running_witness:
  "running (self (snd (start_resident_mode E_ok ''p'' st_fresh)))
   \<and> new_events (snd (start_resident_mode E_ok ''p'' st_fresh))
       (snd (start_resident_mode E_ok ''p'' (snd (start_resident_mode E_ok ''p'' st_fresh))))
     = [Log WARNING 104]
   \<and> self (snd (start_resident_mode E_ok ''p'' (snd (start_resident_mode E_ok ''p'' st_fresh))))
     = self (snd (start_resident_mode E_ok ''p'' st_fresh))"
proof -
  have a: "running (self (snd (start_resident_mode E_ok ''p'' st_fresh)))"
    by (simp add: run_simps example_defs)
  show ?thesis
    using start_resident_mode_when_running [OF a, of E_ok "''p''"] a by blast
qed

text \<open>
  Claim C8 as stated fails when the first call did not bring resident mode up. On a
  browser whose pages never finish loading the first call gives up after 15 rounds and
  leaves \<^verbatim>\<open>_running\<close> false; the second call, with no stop in between, opens a page
  again: two calls of \<^verbatim>\<open>browser.get\<close> in all.
\<close>

theorem start_resident_mode_twice_counterexample:
  "fst (start_resident_mode E_stuck ''p'' st_fresh) = Inr ()
   \<and> \<not> running (self (snd (start_resident_mode E_stuck ''p'' st_fresh)))
   \<and> length (filter is_browser_get (trace (snd (start_resident_mode E_stuck ''p'' st_fresh)))) = 1
   \<and> length (filter is_browser_get (trace (snd (start_resident_mode E_stuck ''p''
        (snd (start_resident_mode E_stuck ''p'' st_fresh)))))) = 2"
  by (simp add: run_simps example_defs)

text \<open>
  Claim C9. \<^verbatim>\<open>get_queue_size\<close> raises \<^verbatim>\<open>AttributeError\<close> on every instance:
  \<^verbatim>\<open>token_queue\<close> is not among the attributes the constructor assigns, and the
  methods assign no other.
\<close>

theorem get_queue_size_raises: "get_queue_size s = Inl AttributeError"
  by (simp add: get_queue_size_def getattr_def instance_attr_def class_attrs_def)

theorem get_queue_size_raises_witness:
  "get_queue_size (init ''/app'' PNone) = Inl AttributeError
   \<and> get_queue_size (self st_resident) = Inl AttributeError"
  using get_queue_size_raises [of "init ''/app'' PNone"] get_queue_size_raises [of "self st_resident"]
  by simp

text \<open>
  Claim C10. For every project identifier, environment and state, \<^verbatim>\<open>get_token\<close>
  leaves \<^verbatim>\<open>_running\<close>, \<^verbatim>\<open>resident_project_id\<close>, \<^verbatim>\<open>resident_tab\<close> and
  \<^verbatim>\<open>_recaptcha_ready\<close> as they were, whatever path it takes and whether it returns a
  token, returns \<^verbatim>\<open>None\<close> or raises.
\<close>

theorem get_token_resident_fields_unchanged:
  "running (self (snd (get_token E pid st))) = running (self st)
   \<and> resident_project_id (self (snd (get_token E pid st))) = resident_project_id (self st)
   \<and> resident_tab (self (snd (get_token E pid st))) = resident_tab (self st)
   \<and> recaptcha_ready (self (snd (get_token E pid st))) = recaptcha_ready (self st)"
proof -
  have "keeps running st (snd (get_token E pid st))"
    by (rule staysD[OF get_token_keeps]) simp_all
  moreover have "keeps resident_project_id st (snd (get_token E pid st))"
    by (rule staysD[OF get_token_keeps]) simp_all
  moreover have "keeps resident_tab st (snd (get_token E pid st))"
    by (rule staysD[OF get_token_keeps]) simp_all
  moreover have "keeps recaptcha_ready st (snd (get_token E pid st))"
    by (rule staysD[OF get_token_keeps]) simp_all
  ultimately show ?thesis by (simp add: keeps_def)
qed

theorem get_token_resident_fields_unchanged_witness:
  "running (self (snd (get_token E_null ''p'' st_resident)))
   \<and> resident_project_id (self (snd (get_token E_null ''p'' st_resident))) = Some ''p''
   \<and> resident_tab (self (snd (get_token E_null ''p'' st_resident))) = Some 7
   \<and> recaptcha_ready (self (snd (get_token E_null ''p'' st_resident)))"
  using get_token_resident_fields_unchanged [of E_null "''p''" st_resident]
  by (simp add: st_resident_def)

end
